theory Spec2Isabelle
  imports Complex_Main
begin

text \<open>
  A model of the notebook \<^verbatim>\<open>PINN_cont_customized_rev.ipynb\<close>, which trains a network on
  the heat equation \<open>u_t - u_xx = 0\<close> with PyTorch: the derivative operator
  \<^verbatim>\<open>derivative\<close>, the residual \<^verbatim>\<open>f\<close>, the losses \<^verbatim>\<open>mse_f\<close>, \<^verbatim>\<open>mse_0\<close> and \<^verbatim>\<open>mse_b\<close>,
  the initializer \<^verbatim>\<open>init_weights\<close> and the \<^verbatim>\<open>closure\<close> of the optimizer with its global
  iteration counter.

  The notebook's functions are written on top of PyTorch, so the theory starts with the
  part of PyTorch they use: arrays with shapes and broadcasting, tensors that carry their
  autodiff graph, and reverse-mode differentiation that records its own operations. A
  Python exception is a value \<open>Inl e\<close> of a sum type, and a function that can raise
  returns in \<open>error + 'a\<close>.
\<close>

section \<open>Numeric values\<close>

text \<open>
  The notebook computes on \<^verbatim>\<open>float32\<close> tensors. Their entries are modelled as real
  numbers extended by one not-a-number value: arithmetic on finite values is exact real
  arithmetic, every operation with a \<open>NaN\<close> operand gives \<open>NaN\<close> (except a zeroth
  power, which is 1 as in IEEE 754), and the mean over no elements is \<open>NaN\<close> as
  \<^verbatim>\<open>torch.mean\<close> of an empty tensor is. Rounding, overflow and infinities are not
  modelled.
\<close>

datatype val = Fin real | NaN

fun vlift1 :: "(real \<Rightarrow> real) \<Rightarrow> val \<Rightarrow> val" where
  "vlift1 f (Fin a) = Fin (f a)"
| "vlift1 f NaN = NaN"

fun vlift2 :: "(real \<Rightarrow> real \<Rightarrow> real) \<Rightarrow> val \<Rightarrow> val \<Rightarrow> val" where
  "vlift2 f (Fin a) (Fin b) = Fin (f a b)"
| "vlift2 f NaN b = NaN"
| "vlift2 f a NaN = NaN"

definition vadd :: "val \<Rightarrow> val \<Rightarrow> val" where
  "vadd = vlift2 (+)"

definition vsub :: "val \<Rightarrow> val \<Rightarrow> val" where
  "vsub = vlift2 (-)"

definition vmul :: "val \<Rightarrow> val \<Rightarrow> val" where
  "vmul = vlift2 (*)"

definition vneg :: "val \<Rightarrow> val" where
  "vneg = vlift1 uminus"

definition vexp :: "val \<Rightarrow> val" where
  "vexp = vlift1 exp"

definition vsin :: "val \<Rightarrow> val" where
  "vsin = vlift1 sin"

definition vcos :: "val \<Rightarrow> val" where
  "vcos = vlift1 cos"

text \<open>\<^verbatim>\<open>x ** n\<close> for a Python \<^verbatim>\<open>int\<close> exponent \<open>n \<ge> 0\<close>.\<close>

fun vpow :: "nat \<Rightarrow> val \<Rightarrow> val" where
  "vpow 0 v = Fin 1"
| "vpow (Suc n) (Fin a) = Fin (a ^ Suc n)"
| "vpow (Suc n) NaN = NaN"

text \<open>The sum of the entries, and the sum divided by the number of entries.\<close>

definition vsum :: "val list \<Rightarrow> val" where
  "vsum vs = foldr vadd vs (Fin 0)"

fun vdiv_count :: "val \<Rightarrow> nat \<Rightarrow> val" where
  "vdiv_count v 0 = NaN"
| "vdiv_count (Fin a) (Suc n) = Fin (a / real (Suc n))"
| "vdiv_count NaN (Suc n) = NaN"

text \<open>Python's \<^verbatim>\<open>v >= 0\<close>: false for \<open>NaN\<close>.\<close>

fun nonneg :: "val \<Rightarrow> bool" where
  "nonneg (Fin a) = (0 \<le> a)"
| "nonneg NaN = False"

text \<open>Never negative: \<open>NaN\<close> or at least 0.\<close>

fun not_negative :: "val \<Rightarrow> bool" where
  "not_negative (Fin a) = (0 \<le> a)"
| "not_negative NaN = True"

section \<open>Arrays: a shape and the entries in row-major order\<close>

datatype arr = Arr (shape: "nat list") (vals: "val list")

definition numel :: "nat list \<Rightarrow> nat" where
  "numel s = prod_list s"

definition scalar :: "val \<Rightarrow> arr" where
  "scalar v = Arr [] [v]"

definition full :: "nat list \<Rightarrow> val \<Rightarrow> arr" where
  "full s v = Arr s (replicate (numel s) v)"

text \<open>\<open>chunks k n vs\<close>: the first \<open>n\<close> consecutive blocks of \<open>k\<close> entries of \<open>vs\<close>.\<close>

fun chunks :: "nat \<Rightarrow> nat \<Rightarrow> 'a list \<Rightarrow> 'a list list" where
  "chunks k 0 vs = []"
| "chunks k (Suc n) vs = take k vs # chunks k n (drop k vs)"

subsection \<open>Broadcasting\<close>

text \<open>
  Shapes are aligned at their last dimension; two dimensions are compatible when they are
  equal or one of them is 1. \<open>bshape_rev\<close> works on the reversed shapes.
\<close>

fun bshape_rev :: "nat list \<Rightarrow> nat list \<Rightarrow> nat list option" where
  "bshape_rev [] ys = Some ys"
| "bshape_rev (x # xs) [] = Some (x # xs)"
| "bshape_rev (x # xs) (y # ys) =
     (if x = y \<or> y = 1 then map_option ((#) x) (bshape_rev xs ys)
      else if x = 1 then map_option ((#) y) (bshape_rev xs ys)
      else None)"

definition bshape :: "nat list \<Rightarrow> nat list \<Rightarrow> nat list option" where
  "bshape s1 s2 = map_option rev (bshape_rev (rev s1) (rev s2))"

definition pad_shape :: "nat \<Rightarrow> nat list \<Rightarrow> nat list" where
  "pad_shape r s = replicate (r - length s) 1 @ s"

text \<open>
  \<open>expand_vals src tgt vs\<close>: the entries of an array of shape \<open>src\<close> repeated to the shape
  \<open>tgt\<close> of the same rank, along every dimension where \<open>src\<close> has 1 and \<open>tgt\<close> has not.
\<close>

fun expand_vals :: "nat list \<Rightarrow> nat list \<Rightarrow> val list \<Rightarrow> val list" where
  "expand_vals (m # ms) (n # ns) vs =
     (let blocks = concat (map (expand_vals ms ns) (chunks (numel ms) m vs))
      in if m = n then blocks else concat (replicate n blocks))"
| "expand_vals ms ns vs = vs"

definition broadcast_to :: "arr \<Rightarrow> nat list \<Rightarrow> val list" where
  "broadcast_to a s = expand_vals (pad_shape (length s) (shape a)) s (vals a)"

text \<open>
  \<open>sum_to_vals src tgt vs\<close>: the inverse direction, summing the entries of an array of
  shape \<open>src\<close> over every dimension where \<open>tgt\<close> has 1 and \<open>src\<close> has not.
\<close>

fun sum_to_vals :: "nat list \<Rightarrow> nat list \<Rightarrow> val list \<Rightarrow> val list" where
  "sum_to_vals (n # ns) (m # ms) vs =
     (let blocks = map (sum_to_vals ns ms) (chunks (numel ns) n vs)
      in if m = n then concat blocks
         else foldr (map2 vadd) blocks (replicate (numel ms) (Fin 0)))"
| "sum_to_vals ns ms vs = vs"

definition sum_to :: "arr \<Rightarrow> nat list \<Rightarrow> arr" where
  "sum_to a s = Arr s (sum_to_vals (shape a) (pad_shape (length (shape a)) s) (vals a))"


definition map_arr :: "(val \<Rightarrow> val) \<Rightarrow> arr \<Rightarrow> arr" where
  "map_arr f a = Arr (shape a) (map f (vals a))"

definition mean_arr :: "arr \<Rightarrow> arr" where
  "mean_arr a = scalar (vdiv_count (vsum (vals a)) (length (vals a)))"

section \<open>Errors\<close>

text \<open>
  Every exception the modelled fragment of PyTorch raises is a value. The faults of the
  autodiff graph (the specification's GraphViolation) are \<^verbatim>\<open>RuntimeError\<close>s with these
  messages:
  \<^item> \<open>NonLeafFlag\<close>: "you can only change requires_grad flags of leaf variables.";
  \<^item> \<open>NoGradFn\<close>: "element 0 of tensors does not require grad and does not have a grad_fn";
  \<^item> \<open>InputNoGrad\<close>: "One of the differentiated Tensors does not require grad";
  \<^item> \<open>UnusedInput\<close>: "One of the differentiated Tensors appears to not have been used in
    the graph."
  \<open>ShapeMismatch\<close> is the \<^verbatim>\<open>RuntimeError\<close> of an operation on tensors of incompatible
  sizes, \<open>IndexError\<close> a dimension or index out of range, \<open>AttributeError\<close> an attribute
  read on \<^verbatim>\<open>None\<close>, \<open>NotScalar\<close> the error of \<^verbatim>\<open>backward()\<close> and \<^verbatim>\<open>item()\<close> on a tensor
  that does not have exactly one element. \<open>ValueError\<close> and \<open>ZeroDivisionError\<close> are
  Python's, raised by \<^verbatim>\<open>torch.nn.init\<close> on a weight without fan-in and fan-out.
\<close>

datatype graph_fault = NonLeafFlag | NoGradFn | InputNoGrad | UnusedInput

datatype error =
  GraphViolation graph_fault | ShapeMismatch | IndexError | AttributeError | NotScalar
  | ValueError | ZeroDivisionError

definition ebind :: "error + 'a \<Rightarrow> ('a \<Rightarrow> error + 'b) \<Rightarrow> error + 'b" where
  "ebind m k = (case m of Inl e \<Rightarrow> Inl e | Inr v \<Rightarrow> k v)"

subsection \<open>Array operations that can fail\<close>

text \<open>An elementwise binary operation with broadcasting.\<close>

definition bop :: "(val \<Rightarrow> val \<Rightarrow> val) \<Rightarrow> arr \<Rightarrow> arr \<Rightarrow> error + arr" where
  "bop f a b =
     (case bshape (shape a) (shape b) of
        None \<Rightarrow> Inl ShapeMismatch
      | Some s \<Rightarrow> Inr (Arr s (map2 f (broadcast_to a s) (broadcast_to b s))))"

text \<open>
  \<^verbatim>\<open>torch.stack((a, b), axis=1)\<close>: the axis is checked against the dimensions of the
  first tensor, then the sizes of the two tensors are compared. Both have the same shape
  \<open>n # rest\<close>; the result has shape \<open>n # 2 # rest\<close>.
\<close>

definition stack_arr :: "arr \<Rightarrow> arr \<Rightarrow> error + arr" where
  "stack_arr a b =
     (case shape a of
        [] \<Rightarrow> Inl IndexError
      | n # rest \<Rightarrow>
          if shape a \<noteq> shape b then Inl ShapeMismatch
          else Inr (Arr (n # 2 # rest)
                      (concat (map2 (@) (chunks (numel rest) n (vals a))
                                           (chunks (numel rest) n (vals b))))))"

text \<open>\<^verbatim>\<open>a.select(1, k)\<close>, that is \<^verbatim>\<open>a[:, k]\<close>.\<close>

definition select_arr :: "nat \<Rightarrow> arr \<Rightarrow> error + arr" where
  "select_arr k a =
     (case shape a of
        n # m # rest \<Rightarrow>
          if k < m
          then Inr (Arr (n # rest)
                      (concat (map (\<lambda>row. take (numel rest) (drop (k * numel rest) row))
                                   (chunks (m * numel rest) n (vals a)))))
          else Inl IndexError
      | _ \<Rightarrow> Inl IndexError)"

text \<open>
  The array of shape \<open>s\<close> that is zero everywhere except at index \<open>k\<close> of dimension 1,
  where it holds \<open>g\<close> (what \<^verbatim>\<open>select_backward\<close> builds).
\<close>

definition scatter_arr :: "nat list \<Rightarrow> nat \<Rightarrow> arr \<Rightarrow> error + arr" where
  "scatter_arr s k g =
     (case s of
        n # m # rest \<Rightarrow>
          if k < m \<and> shape g = n # rest
          then Inr (Arr s
                      (concat (map (\<lambda>row. replicate (k * numel rest) (Fin 0) @ row @
                                            replicate ((m - k - 1) * numel rest) (Fin 0))
                                   (chunks (numel rest) n (vals g)))))
          else Inl ShapeMismatch
      | _ \<Rightarrow> Inl IndexError)"

definition view_arr :: "nat list \<Rightarrow> arr \<Rightarrow> error + arr" where
  "view_arr s a = (if numel s = numel (shape a) then Inr (Arr s (vals a)) else Inl ShapeMismatch)"

section \<open>Tensors and the autodiff graph\<close>

text \<open>
  A tensor is its data together with what autograd records about it. \<open>Const\<close> is a leaf
  that does not require grad. \<open>Var\<close> is a leaf with \<^verbatim>\<open>requires_grad = True\<close>, a
  differentiation variable; its name stands for the identity of the Python object. Every
  other constructor is a non-leaf tensor: the result of an operation with an operand that
  requires grad, holding its data and the operands its \<^verbatim>\<open>grad_fn\<close> saved.
\<close>

datatype tensor =
    Const arr
  | Var string arr
  | AddBackward arr tensor tensor
  | SubBackward arr tensor tensor
  | MulBackward arr tensor tensor
  | NegBackward arr tensor
  | ExpBackward arr tensor
  | SinBackward arr tensor
  | CosBackward arr tensor
  | PowBackward arr nat tensor
  | MeanBackward arr tensor
  | ExpandBackward arr tensor
  | SumBackward arr tensor
  | StackBackward arr tensor tensor
  | SelectBackward arr nat tensor
  | ScatterBackward arr nat tensor
  | ViewBackward arr tensor

fun data :: "tensor \<Rightarrow> arr" where
  "data (Const d) = d"
| "data (Var n d) = d"
| "data (AddBackward d a b) = d"
| "data (SubBackward d a b) = d"
| "data (MulBackward d a b) = d"
| "data (NegBackward d a) = d"
| "data (ExpBackward d a) = d"
| "data (SinBackward d a) = d"
| "data (CosBackward d a) = d"
| "data (PowBackward d n a) = d"
| "data (MeanBackward d a) = d"
| "data (ExpandBackward d a) = d"
| "data (SumBackward d a) = d"
| "data (StackBackward d a b) = d"
| "data (SelectBackward d k a) = d"
| "data (ScatterBackward d k a) = d"
| "data (ViewBackward d a) = d"

fun is_leaf :: "tensor \<Rightarrow> bool" where
  "is_leaf (Const d) = True"
| "is_leaf (Var n d) = True"
| "is_leaf t = False"

fun requires_grad :: "tensor \<Rightarrow> bool" where
  "requires_grad (Const d) = False"
| "requires_grad t = True"

abbreviation tshape :: "tensor \<Rightarrow> nat list" where
  "tshape t \<equiv> shape (data t)"

text \<open>
  The result of an operation is recorded in the graph when an operand requires grad;
  otherwise it is a new leaf that does not.
\<close>

definition record_op :: "bool \<Rightarrow> tensor \<Rightarrow> tensor" where
  "record_op rg t = (if rg then t else Const (data t))"

text \<open>
  \<^verbatim>\<open>t.requires_grad = True\<close>. Only a leaf can be flagged; the flagged leaf is the
  differentiation variable named \<open>name\<close>.
\<close>

fun set_requires_grad :: "string \<Rightarrow> tensor \<Rightarrow> error + tensor" where
  "set_requires_grad name (Const d) = Inr (Var name d)"
| "set_requires_grad name (Var n d) = Inr (Var n d)"
| "set_requires_grad name t = Inl (GraphViolation NonLeafFlag)"

definition zeros_like :: "tensor \<Rightarrow> tensor" where
  "zeros_like t = Const (full (tshape t) (Fin 0))"

definition ones_like :: "tensor \<Rightarrow> tensor" where
  "ones_like t = Const (full (tshape t) (Fin 1))"

definition add_t :: "tensor \<Rightarrow> tensor \<Rightarrow> error + tensor" where
  "add_t a b = ebind (bop vadd (data a) (data b))
     (\<lambda>d. Inr (record_op (requires_grad a \<or> requires_grad b) (AddBackward d a b)))"

definition sub_t :: "tensor \<Rightarrow> tensor \<Rightarrow> error + tensor" where
  "sub_t a b = ebind (bop vsub (data a) (data b))
     (\<lambda>d. Inr (record_op (requires_grad a \<or> requires_grad b) (SubBackward d a b)))"

definition mul_t :: "tensor \<Rightarrow> tensor \<Rightarrow> error + tensor" where
  "mul_t a b = ebind (bop vmul (data a) (data b))
     (\<lambda>d. Inr (record_op (requires_grad a \<or> requires_grad b) (MulBackward d a b)))"

definition neg_t :: "tensor \<Rightarrow> tensor" where
  "neg_t a = record_op (requires_grad a) (NegBackward (map_arr vneg (data a)) a)"

definition exp_t :: "tensor \<Rightarrow> tensor" where
  "exp_t a = record_op (requires_grad a) (ExpBackward (map_arr vexp (data a)) a)"

definition sin_t :: "tensor \<Rightarrow> tensor" where
  "sin_t a = record_op (requires_grad a) (SinBackward (map_arr vsin (data a)) a)"

definition cos_t :: "tensor \<Rightarrow> tensor" where
  "cos_t a = record_op (requires_grad a) (CosBackward (map_arr vcos (data a)) a)"

definition pow_t :: "tensor \<Rightarrow> nat \<Rightarrow> tensor" where
  "pow_t a n = record_op (requires_grad a) (PowBackward (map_arr (vpow n) (data a)) n a)"

definition mean_t :: "tensor \<Rightarrow> tensor" where
  "mean_t a = record_op (requires_grad a) (MeanBackward (mean_arr (data a)) a)"

text \<open>A Python number as an operand: a 0-dimensional tensor that does not require grad.\<close>

definition number :: "real \<Rightarrow> tensor" where
  "number r = Const (scalar (Fin r))"

definition stack_t :: "tensor \<Rightarrow> tensor \<Rightarrow> error + tensor" where
  "stack_t a b = ebind (stack_arr (data a) (data b))
     (\<lambda>d. Inr (record_op (requires_grad a \<or> requires_grad b) (StackBackward d a b)))"

definition select_t :: "nat \<Rightarrow> tensor \<Rightarrow> error + tensor" where
  "select_t k a = ebind (select_arr k (data a))
     (\<lambda>d. Inr (record_op (requires_grad a) (SelectBackward d k a)))"

definition scatter_t :: "nat list \<Rightarrow> nat \<Rightarrow> tensor \<Rightarrow> error + tensor" where
  "scatter_t s k g = ebind (scatter_arr s k (data g))
     (\<lambda>d. Inr (record_op (requires_grad g) (ScatterBackward d k g)))"

definition view_t :: "nat list \<Rightarrow> tensor \<Rightarrow> error + tensor" where
  "view_t s a = ebind (view_arr s (data a))
     (\<lambda>d. Inr (record_op (requires_grad a) (ViewBackward d a)))"

text \<open>\<^verbatim>\<open>a.unsqueeze(1)\<close>: a view with a dimension of size 1 inserted at position 1.\<close>

definition unsqueeze1 :: "tensor \<Rightarrow> error + tensor" where
  "unsqueeze1 a =
     (case tshape a of [] \<Rightarrow> Inl IndexError | n # rest \<Rightarrow> view_t (n # 1 # rest) a)"

text \<open>
  \<^verbatim>\<open>g.expand(s)\<close> and \<^verbatim>\<open>g.sum_to_size(s)\<close>; neither records an operation when the shape
  is already \<open>s\<close>.
\<close>

definition expand_t :: "tensor \<Rightarrow> nat list \<Rightarrow> error + tensor" where
  "expand_t g s =
     (if tshape g = s then Inr g
      else if bshape (tshape g) s = Some s
      then Inr (record_op (requires_grad g) (ExpandBackward (Arr s (broadcast_to (data g) s)) g))
      else Inl ShapeMismatch)"

definition sum_to_t :: "tensor \<Rightarrow> nat list \<Rightarrow> error + tensor" where
  "sum_to_t g s =
     (if tshape g = s then Inr g
      else if bshape s (tshape g) = Some (tshape g)
      then Inr (record_op (requires_grad g) (SumBackward (sum_to (data g) s) g))
      else Inl ShapeMismatch)"


section \<open>Reverse-mode differentiation\<close>

text \<open>
  \<open>backprop y g x\<close> propagates the gradient \<open>g\<close> arriving at \<open>y\<close> back through the graph
  of \<open>y\<close> and returns what arrives at \<open>x\<close>: \<open>None\<close> when \<open>x\<close> is not in the graph, the sum
  of the contributions of all paths otherwise. Every gradient is computed with tensor
  operations, so it is itself recorded in the graph when it depends on a tensor that
  requires grad (\<^verbatim>\<open>create_graph=True\<close>). An operand that does not require grad receives
  no gradient. The rules are those of PyTorch's \<^verbatim>\<open>derivatives.yaml\<close>. The tensor \<open>x\<close> is
  found in the graph by comparing terms: the name of a leaf stands for its identity, and
  two non-leaf tensors built alike from the same operands are taken for one tensor.
\<close>

definition into :: "tensor \<Rightarrow> error + tensor \<Rightarrow> (tensor \<Rightarrow> error + tensor option) \<Rightarrow>
    error + tensor option" where
  "into a g k =
     (if requires_grad a then (case g of Inl e \<Rightarrow> Inl e | Inr g' \<Rightarrow> k g') else Inr None)"

definition accumulate :: "error + tensor option \<Rightarrow> error + tensor option \<Rightarrow>
    error + tensor option" where
  "accumulate r1 r2 =
     (case r1 of
        Inl e \<Rightarrow> Inl e
      | Inr o1 \<Rightarrow>
          (case r2 of
             Inl e \<Rightarrow> Inl e
           | Inr o2 \<Rightarrow>
               (case o1 of
                  None \<Rightarrow> Inr o2
                | Some g1 \<Rightarrow>
                    (case o2 of
                       None \<Rightarrow> Inr (Some g1)
                     | Some g2 \<Rightarrow> ebind (add_t g1 g2) (\<lambda>g. Inr (Some g))))))"

fun backprop :: "tensor \<Rightarrow> tensor \<Rightarrow> tensor \<Rightarrow> error + tensor option" where
  "backprop (Const d) g x = Inr None"
| "backprop (Var n d) g x = (if Var n d = x then Inr (Some g) else Inr None)"
| "backprop (AddBackward d a b) g x =
     (if AddBackward d a b = x then Inr (Some g)
      else accumulate
             (into a (sum_to_t g (tshape a)) (\<lambda>g'. backprop a g' x))
             (into b (sum_to_t g (tshape b)) (\<lambda>g'. backprop b g' x)))"
| "backprop (SubBackward d a b) g x =
     (if SubBackward d a b = x then Inr (Some g)
      else accumulate
             (into a (sum_to_t g (tshape a)) (\<lambda>g'. backprop a g' x))
             (into b (sum_to_t (neg_t g) (tshape b)) (\<lambda>g'. backprop b g' x)))"
| "backprop (MulBackward d a b) g x =
     (if MulBackward d a b = x then Inr (Some g)
      else accumulate
             (into a (ebind (mul_t g b) (\<lambda>h. sum_to_t h (tshape a))) (\<lambda>g'. backprop a g' x))
             (into b (ebind (mul_t g a) (\<lambda>h. sum_to_t h (tshape b))) (\<lambda>g'. backprop b g' x)))"
| "backprop (NegBackward d a) g x =
     (if NegBackward d a = x then Inr (Some g)
      else into a (Inr (neg_t g)) (\<lambda>g'. backprop a g' x))"
| "backprop (ExpBackward d a) g x =
     (if ExpBackward d a = x then Inr (Some g)
      else into a (mul_t g (ExpBackward d a)) (\<lambda>g'. backprop a g' x))"
| "backprop (SinBackward d a) g x =
     (if SinBackward d a = x then Inr (Some g)
      else into a (mul_t g (cos_t a)) (\<lambda>g'. backprop a g' x))"
| "backprop (CosBackward d a) g x =
     (if CosBackward d a = x then Inr (Some g)
      else into a (mul_t g (neg_t (sin_t a))) (\<lambda>g'. backprop a g' x))"
| "backprop (PowBackward d n a) g x =
     (if PowBackward d n a = x then Inr (Some g)
      else into a
             (if n = 0 then Inr (zeros_like a)
              else ebind (mul_t (number (real n)) (pow_t a (n - 1))) (\<lambda>h. mul_t g h))
             (\<lambda>g'. backprop a g' x))"
| "backprop (MeanBackward d a) g x =
     (if MeanBackward d a = x then Inr (Some g)
      else into a
             (ebind (expand_t g (tshape a))
                (\<lambda>h. mul_t h (number (1 / real (length (vals (data a)))))))
             (\<lambda>g'. backprop a g' x))"
| "backprop (ExpandBackward d a) g x =
     (if ExpandBackward d a = x then Inr (Some g)
      else into a (sum_to_t g (tshape a)) (\<lambda>g'. backprop a g' x))"
| "backprop (SumBackward d a) g x =
     (if SumBackward d a = x then Inr (Some g)
      else into a (expand_t g (tshape a)) (\<lambda>g'. backprop a g' x))"
| "backprop (StackBackward d a b) g x =
     (if StackBackward d a b = x then Inr (Some g)
      else accumulate
             (into a (select_t 0 g) (\<lambda>g'. backprop a g' x))
             (into b (select_t 1 g) (\<lambda>g'. backprop b g' x)))"
| "backprop (SelectBackward d k a) g x =
     (if SelectBackward d k a = x then Inr (Some g)
      else into a (scatter_t (tshape a) k g) (\<lambda>g'. backprop a g' x))"
| "backprop (ScatterBackward d k a) g x =
     (if ScatterBackward d k a = x then Inr (Some g)
      else into a (select_t k g) (\<lambda>g'. backprop a g' x))"
| "backprop (ViewBackward d a) g x =
     (if ViewBackward d a = x then Inr (Some g)
      else into a (view_t (tshape a) g) (\<lambda>g'. backprop a g' x))"

text \<open>
  \<^verbatim>\<open>torch.autograd.grad(y, x, grad_outputs=g, create_graph=True, retain_graph=True)[0]\<close>.
  The graph is retained, so no pass ever finds it released.
\<close>

definition autograd_grad :: "tensor \<Rightarrow> tensor \<Rightarrow> tensor \<Rightarrow> error + tensor" where
  "autograd_grad y x g =
     (if \<not> requires_grad y then Inl (GraphViolation NoGradFn)
      else if \<not> requires_grad x then Inl (GraphViolation InputNoGrad)
      else case backprop y g x of
             Inl e \<Rightarrow> Inl e
           | Inr None \<Rightarrow> Inl (GraphViolation UnusedInput)
           | Inr (Some d) \<Rightarrow> Inr d)"

section \<open>Well-formed tensors\<close>

text \<open>
  PyTorch keeps the entries of a tensor and its shape together: a tensor of shape \<open>s\<close>
  has \<open>numel s\<close> entries, and the shape of the result of an operation is the one the
  operation gives to the shapes of its operands. The datatypes above have other values
  as well, which no tensor operation builds. \<open>well_formed\<close> tells them apart; it looks at
  shapes and numbers of entries only, never at the entries.

  \<open>fits src tgt\<close>: the shape \<open>src\<close>, of the same rank as \<open>tgt\<close>, can be expanded to \<open>tgt\<close>.
\<close>

definition well_formed_arr :: "arr \<Rightarrow> bool" where
  "well_formed_arr a = (length (vals a) = numel (shape a))"

definition fits :: "nat list \<Rightarrow> nat list \<Rightarrow> bool" where
  "fits src tgt = list_all2 (\<lambda>m n. m = n \<or> m = 1) src tgt"

fun well_formed :: "tensor \<Rightarrow> bool" where
  "well_formed (Const d) = well_formed_arr d"
| "well_formed (Var n d) = well_formed_arr d"
| "well_formed (AddBackward d a b) =
     (well_formed_arr d \<and> well_formed a \<and> well_formed b \<and>
      bshape (tshape a) (tshape b) = Some (shape d))"
| "well_formed (SubBackward d a b) =
     (well_formed_arr d \<and> well_formed a \<and> well_formed b \<and>
      bshape (tshape a) (tshape b) = Some (shape d))"
| "well_formed (MulBackward d a b) =
     (well_formed_arr d \<and> well_formed a \<and> well_formed b \<and>
      bshape (tshape a) (tshape b) = Some (shape d))"
| "well_formed (NegBackward d a) = (well_formed_arr d \<and> well_formed a \<and> shape d = tshape a)"
| "well_formed (ExpBackward d a) = (well_formed_arr d \<and> well_formed a \<and> shape d = tshape a)"
| "well_formed (SinBackward d a) = (well_formed_arr d \<and> well_formed a \<and> shape d = tshape a)"
| "well_formed (CosBackward d a) = (well_formed_arr d \<and> well_formed a \<and> shape d = tshape a)"
| "well_formed (PowBackward d n a) = (well_formed_arr d \<and> well_formed a \<and> shape d = tshape a)"
| "well_formed (MeanBackward d a) = (well_formed_arr d \<and> well_formed a \<and> shape d = [])"
| "well_formed (ExpandBackward d a) =
     (well_formed_arr d \<and> well_formed a \<and> bshape (tshape a) (shape d) = Some (shape d))"
| "well_formed (SumBackward d a) =
     (well_formed_arr d \<and> well_formed a \<and> bshape (shape d) (tshape a) = Some (tshape a))"
| "well_formed (StackBackward d a b) =
     (well_formed_arr d \<and> well_formed a \<and> well_formed b \<and> tshape a = tshape b \<and>
      (case tshape a of [] \<Rightarrow> False | n # rest \<Rightarrow> shape d = n # 2 # rest))"
| "well_formed (SelectBackward d k a) =
     (well_formed_arr d \<and> well_formed a \<and>
      (case tshape a of n # m # rest \<Rightarrow> k < m \<and> shape d = n # rest | _ \<Rightarrow> False))"
| "well_formed (ScatterBackward d k a) =
     (well_formed_arr d \<and> well_formed a \<and>
      (case shape d of n # m # rest \<Rightarrow> k < m \<and> tshape a = n # rest | _ \<Rightarrow> False))"
| "well_formed (ViewBackward d a) =
     (well_formed_arr d \<and> well_formed a \<and> numel (shape d) = numel (tshape a))"

section \<open>The notebook's functions\<close>

subsection \<open>derivative\<close>

text \<open>
  \<^verbatim>\<open>for i in range(order): dy = torch.autograd.grad(dy, x, grad_outputs=torch.ones_like(dy),
  create_graph=True, retain_graph=True)[0]\<close>, then \<^verbatim>\<open>return dy\<close>. \<^verbatim>\<open>range(order)\<close> is
  empty for \<open>order \<le> 0\<close>.
\<close>

fun derivative_loop :: "nat \<Rightarrow> tensor \<Rightarrow> tensor \<Rightarrow> error + tensor" where
  "derivative_loop 0 dy x = Inr dy"
| "derivative_loop (Suc n) dy x =
     (case autograd_grad dy x (ones_like dy) of
        Inl e \<Rightarrow> Inl e
      | Inr dy' \<Rightarrow> derivative_loop n dy' x)"

definition derivative :: "tensor \<Rightarrow> tensor \<Rightarrow> int \<Rightarrow> error + tensor" where
  "derivative dy x order = derivative_loop (nat order) dy x"


subsection \<open>The residual and the three losses\<close>

text \<open>
  The model is a parameter of every function below, as it is in the notebook: any callable
  from the stacked input to a prediction, which may raise.
\<close>

type_synonym model = "tensor \<Rightarrow> error + tensor"

definition f :: "model \<Rightarrow> tensor \<Rightarrow> tensor \<Rightarrow> error + tensor" where
  "f model x_f t_f =
     ebind (stack_t x_f t_f) (\<lambda>inp.
     ebind (model inp) (\<lambda>u.
     ebind (derivative u t_f 1) (\<lambda>u_t.
     ebind (derivative u x_f 2) (\<lambda>u_xx.
     sub_t u_t u_xx))))"

definition mse_f :: "model \<Rightarrow> tensor \<Rightarrow> tensor \<Rightarrow> error + tensor" where
  "mse_f model x_f t_f =
     ebind (f model x_f t_f) (\<lambda>f_u.
     Inr (mean_t (pow_t f_u 2)))"

definition mse_0 :: "model \<Rightarrow> tensor \<Rightarrow> tensor \<Rightarrow> error + tensor" where
  "mse_0 model x_0 u_0 =
     (let t_0 = zeros_like x_0 in
      ebind (stack_t x_0 t_0) (\<lambda>inp.
      ebind (model inp) (\<lambda>f.
      ebind (sub_t f u_0) (\<lambda>d.
      Inr (mean_t (pow_t d 2))))))"

text \<open>
  \<^verbatim>\<open>mse_b\<close> computes two local values and returns their sum. \<open>mse_dirichlet\<close> is the
  first block of its body, \<open>mse_neumann\<close> the second. The two tensors the body flags as
  differentiation variables are new objects, named here after their Python variables; the
  tensors of the caller and of the model bear other names.
\<close>

definition mse_dirichlet :: "model \<Rightarrow> tensor \<Rightarrow> error + tensor" where
  "mse_dirichlet model t_b =
     ebind (set_requires_grad ''x_b_upper'' (zeros_like t_b)) (\<lambda>x_b_upper.
     ebind (stack_t x_b_upper t_b) (\<lambda>inp.
     ebind (model inp) (\<lambda>u_b_upper.
     Inr (mean_t (pow_t u_b_upper 2)))))"

definition mse_neumann :: "model \<Rightarrow> tensor \<Rightarrow> error + tensor" where
  "mse_neumann model t_b =
     ebind (mul_t (number (2 * pi)) (exp_t (neg_t t_b))) (\<lambda>x_b_lower0.
     ebind (set_requires_grad ''x_b_lower'' x_b_lower0) (\<lambda>x_b_lower.
     ebind (stack_t x_b_lower t_b) (\<lambda>inp.
     ebind (model inp) (\<lambda>u_b_lower.
     ebind (derivative u_b_lower x_b_lower 1) (\<lambda>u_x_b_lower.
     ebind (sub_t u_b_lower u_x_b_lower) (\<lambda>d.
     Inr (mean_t (pow_t d 2))))))))"

definition mse_b :: "model \<Rightarrow> tensor \<Rightarrow> error + tensor" where
  "mse_b model t_b =
     ebind (mse_dirichlet model t_b) (\<lambda>dirichlet.
     ebind (mse_neumann model t_b) (\<lambda>neumann.
     add_t dirichlet neumann))"

subsection \<open>init_weights and Module.apply\<close>

text \<open>
  A module is its kind and its children in registration order. A linear layer holds its
  weight and its bias, which is \<^verbatim>\<open>None\<close> for \<^verbatim>\<open>nn.Linear(..., bias=False)\<close>.
\<close>

datatype module_kind = Linear arr "arr option" | Tanh | ModuleList | WaveNet

datatype module = Module (kind: module_kind) (children: "module list")

text \<open>
  \<^verbatim>\<open>Wave.__init__\<close> registers \<^verbatim>\<open>linear_in = nn.Linear(2, 100)\<close>,
  \<^verbatim>\<open>linear_out = nn.Linear(100, 1)\<close>, \<^verbatim>\<open>layers\<close>, a list of five \<^verbatim>\<open>nn.Linear(100, 100)\<close>,
  and \<^verbatim>\<open>act = nn.Tanh()\<close>, in this order. The parameters' first values are PyTorch's
  random defaults, so they are arguments here: for each layer the entries of its weight
  and of its bias, by position.
\<close>

definition linear_module :: "nat \<Rightarrow> nat \<Rightarrow> (nat \<Rightarrow> val) \<times> (nat \<Rightarrow> val) \<Rightarrow> module" where
  "linear_module n_in n_out p =
     Module (Linear (Arr [n_out, n_in] (map (fst p) [0..<n_out * n_in]))
                    (Some (Arr [n_out] (map (snd p) [0..<n_out])))) []"

definition Wave :: "(nat \<Rightarrow> val) \<times> (nat \<Rightarrow> val) \<Rightarrow> (nat \<Rightarrow> val) \<times> (nat \<Rightarrow> val) \<Rightarrow>
    (nat \<Rightarrow> (nat \<Rightarrow> val) \<times> (nat \<Rightarrow> val)) \<Rightarrow> module" where
  "Wave p_in p_out p_hidden =
     Module WaveNet
       [linear_module 2 100 p_in,
        linear_module 100 1 p_out,
        Module ModuleList (map (\<lambda>i. linear_module 100 100 (p_hidden i)) [0..<5]),
        Module Tanh []]"

text \<open>
  \<^verbatim>\<open>torch.nn.init.xavier_normal_(w)\<close> computes the fan-in and the fan-out of \<open>w\<close>, which
  needs two dimensions at least, and fills \<open>w\<close> in place with draws from the normal
  distribution of mean 0 and standard deviation \<open>gain * sqrt (2 / (fan_in + fan_out))\<close>,
  with \<open>gain = 1\<close>. The draws come from the global random generator, which is a parameter
  here: \<open>randn\<close> takes the state of the generator to the next standard normal draw and
  the next state, and an entry filled from the draw \<open>z\<close> holds \<open>mean + std * z\<close>.
\<close>

definition calculate_fan_in_and_fan_out :: "arr \<Rightarrow> error + nat \<times> nat" where
  "calculate_fan_in_and_fan_out w =
     (case shape w of
        n_out # n_in # rest \<Rightarrow> Inr (n_in * prod_list rest, n_out * prod_list rest)
      | _ \<Rightarrow> Inl ValueError)"

fun normal_fill :: "('g \<Rightarrow> real \<times> 'g) \<Rightarrow> real \<Rightarrow> real \<Rightarrow> val list \<Rightarrow> 'g \<Rightarrow> val list \<times> 'g" where
  "normal_fill randn mean std [] g = ([], g)"
| "normal_fill randn mean std (v # vs) g =
     (case randn g of
        (z, g1) \<Rightarrow>
          (case normal_fill randn mean std vs g1 of
             (ws, g2) \<Rightarrow> (Fin (mean + std * z) # ws, g2)))"

definition xavier_normal :: "('g \<Rightarrow> real \<times> 'g) \<Rightarrow> arr \<Rightarrow> 'g \<Rightarrow> error + arr \<times> 'g" where
  "xavier_normal randn w g =
     (case calculate_fan_in_and_fan_out w of
        Inl e \<Rightarrow> Inl e
      | Inr (fan_in, fan_out) \<Rightarrow>
          if fan_in + fan_out = 0 then Inl ZeroDivisionError
          else (case normal_fill randn 0 (1 * sqrt (2 / real (fan_in + fan_out))) (vals w) g of
                  (ws, g') \<Rightarrow> Inr (Arr (shape w) ws, g')))"

text \<open>\<^verbatim>\<open>a.fill_(v)\<close> overwrites every entry of \<open>a\<close> in place.\<close>

definition fill :: "arr \<Rightarrow> val \<Rightarrow> arr" where
  "fill a v = Arr (shape a) (map (\<lambda>old. v) (vals a))"

text \<open>
  \<^verbatim>\<open>init_weights(m)\<close> changes a module of type \<^verbatim>\<open>nn.Linear\<close> only: it draws the weight,
  then fills the bias; on a layer without bias \<^verbatim>\<open>m.bias.data\<close> raises, after the weight
  has been drawn.
\<close>

fun init_weights :: "('g \<Rightarrow> real \<times> 'g) \<Rightarrow> module \<Rightarrow> 'g \<Rightarrow> error + module \<times> 'g" where
  "init_weights randn (Module (Linear w b) cs) g =
     (case xavier_normal randn w g of
        Inl e \<Rightarrow> Inl e
      | Inr (w', g') \<Rightarrow>
          (case b of
             None \<Rightarrow> Inl AttributeError
           | Some bias \<Rightarrow> Inr (Module (Linear w' (Some (fill bias (Fin (1 / 100))))) cs, g')))"
| "init_weights randn m g = Inr (m, g)"

text \<open>
  \<^verbatim>\<open>Module.apply(fn)\<close>: \<^verbatim>\<open>for module in self.children(): module.apply(fn)\<close>, then
  \<^verbatim>\<open>fn(self)\<close>.
\<close>

fun apply_fn :: "(module \<Rightarrow> 'g \<Rightarrow> error + module \<times> 'g) \<Rightarrow> module \<Rightarrow> 'g \<Rightarrow> error + module \<times> 'g"
  and apply_children :: "(module \<Rightarrow> 'g \<Rightarrow> error + module \<times> 'g) \<Rightarrow> module list \<Rightarrow> 'g \<Rightarrow>
    error + module list \<times> 'g" where
  "apply_fn fn (Module k cs) g =
     (case apply_children fn cs g of
        Inl e \<Rightarrow> Inl e
      | Inr (cs', g') \<Rightarrow> fn (Module k cs') g')"
| "apply_children fn [] g = Inr ([], g)"
| "apply_children fn (c # cs) g =
     (case apply_fn fn c g of
        Inl e \<Rightarrow> Inl e
      | Inr (c', g1) \<Rightarrow>
          (case apply_children fn cs g1 of
             Inl e \<Rightarrow> Inl e
           | Inr (cs', g2) \<Rightarrow> Inr (c' # cs', g2)))"

text \<open>
  The weights and the biases of the linear layers of a module, in the order in which
  \<^verbatim>\<open>apply\<close> visits them (children first).
\<close>

fun weights :: "module \<Rightarrow> arr list" where
  "weights (Module k cs) =
     concat (map weights cs) @ (case k of Linear w b \<Rightarrow> [w] | _ \<Rightarrow> [])"

fun biases :: "module \<Rightarrow> arr list" where
  "biases (Module k cs) =
     concat (map biases cs) @ (case k of Linear w (Some b) \<Rightarrow> [b] | _ \<Rightarrow> [])"

text \<open>
  Every linear layer of the module is as \<^verbatim>\<open>nn.Linear(n_in, n_out)\<close> builds it: it has a
  bias, and its weight has the shape \<open>[n_out, n_in]\<close>, with a feature at least.
\<close>

fun linear_layers_built :: "module \<Rightarrow> bool" where
  "linear_layers_built (Module k cs) =
     ((case k of
         Linear w b \<Rightarrow>
           b \<noteq> None \<and> (case shape w of [n_out, n_in] \<Rightarrow> 0 < n_in + n_out | _ \<Rightarrow> False)
       | _ \<Rightarrow> True) \<and>
      list_all linear_layers_built cs)"

text \<open>\<open>n\<close> draws one after the other, and the state of the generator after them.\<close>

fun draws :: "('g \<Rightarrow> real \<times> 'g) \<Rightarrow> nat \<Rightarrow> 'g \<Rightarrow> real list \<times> 'g" where
  "draws randn 0 g = ([], g)"
| "draws randn (Suc n) g =
     (case randn g of
        (z, g1) \<Rightarrow>
          (case draws randn n g1 of
             (zs, g2) \<Rightarrow> (z # zs, g2)))"

text \<open>
  A list of weights replaced one after the other, the state of the generator passed
  along.
\<close>

fun draw_all :: "(arr \<Rightarrow> 'g \<Rightarrow> arr \<times> 'g) \<Rightarrow> arr list \<Rightarrow> 'g \<Rightarrow> arr list \<times> 'g" where
  "draw_all draw [] g = ([], g)"
| "draw_all draw (w # ws) g =
     (case draw w g of
        (w', g1) \<Rightarrow>
          (case draw_all draw ws g1 of
             (ws', g2) \<Rightarrow> (w' # ws', g2)))"

text \<open>A module with the parameters of its linear layers erased: what is left of it.\<close>

fun skeleton :: "module \<Rightarrow> module" where
  "skeleton (Module k cs) =
     Module (case k of Linear w b \<Rightarrow> Linear (Arr [] []) None | _ \<Rightarrow> k) (map skeleton cs)"

text \<open>
  A weight of shape \<open>[n_out, n_in]\<close> with its entries replaced by as many draws, each
  multiplied by \<open>sqrt (2 / (n_out + n_in))\<close>.
\<close>

definition scaled_draws :: "('g \<Rightarrow> real \<times> 'g) \<Rightarrow> arr \<Rightarrow> 'g \<Rightarrow> arr \<times> 'g" where
  "scaled_draws randn w g =
     (case draws randn (length (vals w)) g of
        (zs, g1) \<Rightarrow>
          (Arr (shape w) (map (\<lambda>z. Fin (sqrt (2 / real (shape w ! 0 + shape w ! 1)) * z)) zs),
           g1))"

text \<open>
  What \<^verbatim>\<open>model.apply(init_weights)\<close> establishes between the module before and after,
  and the generator before and after, stated without the functions that do it: nothing
  but the parameters of the linear layers has changed; the weights are scaled draws, the
  generator passed from one layer to the next in the order of the visit; every bias has
  kept its shape and its number of entries, and holds 0.01 in each of them; and every
  linear layer still has its bias.
\<close>

definition initialized :: "('g \<Rightarrow> real \<times> 'g) \<Rightarrow> module \<Rightarrow> 'g \<Rightarrow> module \<Rightarrow> 'g \<Rightarrow> bool" where
  "initialized randn m g m' g' =
     (skeleton m' = skeleton m \<and>
      (weights m', g') = draw_all (scaled_draws randn) (weights m) g \<and>
      map shape (biases m') = map shape (biases m) \<and>
      map vals (biases m') = map (\<lambda>b. replicate (length (vals b)) (Fin (1 / 100))) (biases m) \<and>
      linear_layers_built m')"

subsection \<open>closure and the iteration counter\<close>

text \<open>
  The process-wide state: the global \<^verbatim>\<open>iter\<close>, set to 0 when the first cell runs, and
  what \<^verbatim>\<open>print\<close> has written, one pair of the counter and \<^verbatim>\<open>loss.item()\<close> per line.
\<close>

record state =
  iter :: int
  stdout :: "(int \<times> val) list"

definition initial_state :: state where
  "initial_state = \<lparr>iter = 0, stdout = []\<rparr>"

text \<open>\<^verbatim>\<open>mse_f(model, x_f, t_f) + mse_0(model, x_0, u_0) + mse_b(model, t)\<close>, left to right.\<close>

definition combined_loss :: "model \<Rightarrow> tensor \<Rightarrow> tensor \<Rightarrow> tensor \<Rightarrow> tensor \<Rightarrow> tensor \<Rightarrow>
    error + tensor" where
  "combined_loss model x_f t_f x_0 u_0 t =
     ebind (mse_f model x_f t_f) (\<lambda>l_f.
     ebind (mse_0 model x_0 u_0) (\<lambda>l_0.
     ebind (add_t l_f l_0) (\<lambda>l_f0.
     ebind (mse_b model t) (\<lambda>l_b.
     add_t l_f0 l_b))))"

text \<open>
  \<^verbatim>\<open>loss.backward(retain_graph=True)\<close> raises unless the loss requires grad and has one
  element. What it adds to the \<^verbatim>\<open>.grad\<close> buffers of the leaves, and
  \<^verbatim>\<open>optimizer.zero_grad()\<close>, which clears those of the parameters, are not modelled: the
  buffers are read by the optimizer only. So \<open>closure\<close> has no argument for the
  optimizer; it takes the state of the process and returns it with its result.
\<close>

definition backward :: "tensor \<Rightarrow> error + unit" where
  "backward loss =
     (if \<not> requires_grad loss then Inl (GraphViolation NoGradFn)
      else if length (vals (data loss)) \<noteq> 1 then Inl NotScalar
      else Inr ())"

definition item :: "tensor \<Rightarrow> error + val" where
  "item t = (case vals (data t) of [v] \<Rightarrow> Inr v | _ \<Rightarrow> Inl NotScalar)"

definition closure :: "model \<Rightarrow> tensor \<Rightarrow> tensor \<Rightarrow> tensor \<Rightarrow> tensor \<Rightarrow> tensor \<Rightarrow> state \<Rightarrow>
    state \<times> (error + tensor)" where
  "closure model x_f t_f x_0 u_0 t st =
     (case combined_loss model x_f t_f x_0 u_0 t of
        Inl e \<Rightarrow> (st, Inl e)
      | Inr loss \<Rightarrow>
          (case backward loss of
             Inl e \<Rightarrow> (st, Inl e)
           | Inr u \<Rightarrow>
               (let st1 = st\<lparr>iter := iter st + 1\<rparr> in
                if iter st1 mod 50 = 0
                then (case item loss of
                        Inl e \<Rightarrow> (st1, Inl e)
                      | Inr v \<Rightarrow> (st1\<lparr>stdout := stdout st1 @ [(iter st1, v)]\<rparr>, Inr loss))
                else (st1, Inr loss))))"

text \<open>
  \<^verbatim>\<open>train\<close> hands the closure to \<^verbatim>\<open>torch.optim.LBFGS.step\<close>, which calls it again and
  again, changing the parameters of the model in between, and lets its exceptions pass.
  What the optimizer chooses is outside the notebook: a run is modelled by the list of the
  models the closure is evaluated on, in order. The result is the state and the losses
  returned, or the state and the exception that ended the run.
\<close>

fun train_evals :: "model list \<Rightarrow> tensor \<Rightarrow> tensor \<Rightarrow> tensor \<Rightarrow> tensor \<Rightarrow> tensor \<Rightarrow> state \<Rightarrow>
    state \<times> (error + tensor list)" where
  "train_evals [] x_f t_f x_0 u_0 t st = (st, Inr [])"
| "train_evals (m # ms) x_f t_f x_0 u_0 t st =
     (case closure m x_f t_f x_0 u_0 t st of
        (st1, Inl e) \<Rightarrow> (st1, Inl e)
      | (st1, Inr loss) \<Rightarrow>
          (case train_evals ms x_f t_f x_0 u_0 t st1 of
             (st2, Inl e) \<Rightarrow> (st2, Inl e)
           | (st2, Inr losses) \<Rightarrow> (st2, Inr (loss # losses))))"


section \<open>Models for the concrete evaluations\<close>

text \<open>
  Three callables on the stacked input \<^verbatim>\<open>inp\<close> of shape \<open>[N, 2]\<close>, each returning a
  prediction of shape \<open>[N, 1]\<close> as a network whose last layer is \<^verbatim>\<open>nn.Linear(100, 1)\<close> does:
  \<^verbatim>\<open>(inp[:, 0] ** 2 * inp[:, 1]).unsqueeze(1)\<close>, \<^verbatim>\<open>(inp[:, 0] * inp[:, 1]).unsqueeze(1)\<close>
  and \<^verbatim>\<open>torch.sin(2 * np.pi * inp[:, 0]).unsqueeze(1)\<close>, that is \<open>u = x\<^sup>2 t\<close>, \<open>u = x t\<close> and
  \<open>u = sin (2 \<pi> x)\<close>.
\<close>

definition model_x2t :: model where
  "model_x2t inp =
     ebind (select_t 0 inp) (\<lambda>x.
     ebind (select_t 1 inp) (\<lambda>t.
     ebind (mul_t (pow_t x 2) t) unsqueeze1))"

definition model_xt :: model where
  "model_xt inp =
     ebind (select_t 0 inp) (\<lambda>x.
     ebind (select_t 1 inp) (\<lambda>t.
     ebind (mul_t x t) unsqueeze1))"

definition model_sin :: model where
  "model_sin inp =
     ebind (select_t 0 inp) (\<lambda>x.
     ebind (mul_t (number (2 * pi)) x) (\<lambda>y.
     unsqueeze1 (sin_t y)))"

text \<open>
  A fourth callable, \<^verbatim>\<open>inp[:, 1].unsqueeze(1)\<close>: \<open>u = t\<close>, the identity in \<open>t\<close> that is
  constant in \<open>x\<close>.
\<close>

definition model_t :: model where
  "model_t inp = ebind (select_t 1 inp) unsqueeze1"

text \<open>The inputs of the concrete evaluations: batches of one point each.\<close>

definition ex_x_f :: tensor where
  "ex_x_f = Var ''x_f'' (Arr [1] [Fin 1])"

definition ex_t_f :: tensor where
  "ex_t_f = Var ''t_f'' (Arr [1] [Fin 3])"

definition ex_x_0 :: tensor where
  "ex_x_0 = Var ''x_0'' (Arr [1] [Fin 1])"

definition ex_u_0 :: tensor where
  "ex_u_0 = Const (Arr [1] [Fin 2])"

definition ex_t_b :: tensor where
  "ex_t_b = Const (Arr [1] [Fin 0])"



text \<open>
  An initial batch of two points with its targets \<open>sin (2 \<pi> x)\<close>, and a boundary batch of
  two times that does not require grad.
\<close>

definition ex_x_ic :: tensor where
  "ex_x_ic = Var ''x_0'' (Arr [2] [Fin 0, Fin (1 / 4)])"

definition ex_u_ic :: tensor where
  "ex_u_ic = Var ''u_0'' (Arr [2] [Fin (sin (2 * pi * 0)), Fin (sin (2 * pi * (1 / 4)))])"

definition ex_t_bc :: tensor where
  "ex_t_bc = Const (Arr [2] [Fin 0, Fin 1])"

text \<open>The mean of the squares of a list of entries: what \<^verbatim>\<open>(d ** 2).mean()\<close> holds.\<close>

definition mean_square :: "val list \<Rightarrow> val" where
  "mean_square vs = vdiv_count (vsum (map (vpow 2) vs)) (length vs)"

section \<open>Evaluation\<close>

text \<open>The equations that evaluate the tensor operations on concrete tensors.\<close>

lemmas tensor_eval =
  derivative_def autograd_grad_def ones_like_def zeros_like_def full_def numel_def
  pow_t_def record_op_def map_arr_def into_def accumulate_def mul_t_def add_t_def sub_t_def
  neg_t_def number_def scalar_def ebind_def bop_def bshape_def broadcast_to_def pad_shape_def
  sum_to_t_def expand_t_def sum_to_def vadd_def vmul_def vsub_def vneg_def vexp_def vsin_def
  vcos_def eval_nat_numeral Let_def stack_t_def stack_arr_def select_t_def select_arr_def
  scatter_t_def scatter_arr_def view_t_def view_arr_def unsqueeze1_def exp_t_def sin_t_def
  cos_t_def mean_t_def mean_arr_def vsum_def

lemmas notebook_eval =
  f_def mse_f_def mse_0_def mse_dirichlet_def mse_neumann_def mse_b_def combined_loss_def
  closure_def backward_def item_def model_x2t_def model_xt_def model_sin_def

lemmas example_eval = ex_x_f_def ex_t_f_def ex_x_0_def ex_u_0_def ex_t_b_def initial_state_def

section \<open>The derivative operator\<close>

text \<open>The last pass of the loop can be split off: one more order is one more pass.\<close>

lemma derivative_loop_snoc:
  "derivative_loop (Suc n) dy x =
     ebind (derivative_loop n dy x) (\<lambda>d. autograd_grad d x (ones_like d))"
proof (induction n arbitrary: dy)
  case 0
  show ?case
    by (cases "autograd_grad dy x (ones_like dy)") (simp_all add: ebind_def)
next
  case (Suc n)
  show ?case
  proof (cases "autograd_grad dy x (ones_like dy)")
    case (Inl e)
    then show ?thesis by (simp add: ebind_def)
  next
    case (Inr d')
    then show ?thesis using Suc.IH [of d'] by (simp add: ebind_def)
  qed
qed

text \<open>
  C10. With \<^verbatim>\<open>order\<close> 0 or negative the loop of \<^verbatim>\<open>derivative\<close> runs no pass, and the
  function returns \<^verbatim>\<open>dy\<close> itself, whatever \<^verbatim>\<open>dy\<close> and \<^verbatim>\<open>x\<close> are: no check of the
  autodiff graph is reached.
\<close>

theorem derivative_nonpositive_order:
  "order \<le> 0 \<Longrightarrow> derivative dy x order = Inr dy"
  by (simp add: derivative_def)

theorem derivative_nonpositive_order_witness:
  "(- 3 :: int) \<le> 0 \<and>
   derivative (Const (scalar (Fin 2))) (Const (scalar (Fin 5))) (- 3) = Inr (Const (scalar (Fin 2)))"
  using derivative_nonpositive_order [of "- 3" "Const (scalar (Fin 2))" "Const (scalar (Fin 5))"]
  by simp

text \<open>
  C5. For \<open>y = x\<^sup>3\<close> and the differentiation variable \<open>x\<close> holding \<open>-1, 0, 2\<close>,
  \<^verbatim>\<open>derivative\<close> returns \<open>3, 0, 12\<close> for order 1, a tensor that is itself recorded in the
  graph, and \<open>-6, 0, 12\<close> for order 2. In general order 1 is one reverse-mode pass with a
  gradient of ones, and order \<open>k + 1\<close> is the pass applied to the result of order \<open>k\<close>.
\<close>

theorem derivative_cube:
  "map_sum id data
     (derivative (pow_t (Var ''x'' (Arr [3] [Fin (- 1), Fin 0, Fin 2])) 3)
        (Var ''x'' (Arr [3] [Fin (- 1), Fin 0, Fin 2])) 1)
   = Inr (Arr [3] [Fin 3, Fin 0, Fin 12]) \<and>
   map_sum id requires_grad
     (derivative (pow_t (Var ''x'' (Arr [3] [Fin (- 1), Fin 0, Fin 2])) 3)
        (Var ''x'' (Arr [3] [Fin (- 1), Fin 0, Fin 2])) 1)
   = Inr True \<and>
   map_sum id data
     (derivative (pow_t (Var ''x'' (Arr [3] [Fin (- 1), Fin 0, Fin 2])) 3)
        (Var ''x'' (Arr [3] [Fin (- 1), Fin 0, Fin 2])) 2)
   = Inr (Arr [3] [Fin (- 6), Fin 0, Fin 12]) \<and>
   (\<forall>dy x. derivative dy x 1 = autograd_grad dy x (ones_like dy)) \<and>
   (\<forall>dy x k. derivative dy x (int k + 1) =
       ebind (derivative dy x (int k)) (\<lambda>d. autograd_grad d x (ones_like d)))"
proof -
  have step: "derivative dy x (int k + 1) =
       ebind (derivative dy x (int k)) (\<lambda>d. autograd_grad d x (ones_like d))" for dy x k
  proof -
    have "nat (int k + 1) = Suc k" by simp
    then show ?thesis
      unfolding derivative_def by (simp only: derivative_loop_snoc nat_int)
  qed
  have one: "derivative dy x 1 = autograd_grad dy x (ones_like dy)" for dy x
    by (simp add: derivative_def split: sum.splits)
  show ?thesis
    apply (intro conjI allI)
        apply (simp add: tensor_eval)
       apply (simp add: tensor_eval)
      apply (simp add: tensor_eval)
     apply (rule one)
    apply (rule step)
    done
qed

section \<open>The boundary loss on a differentiation variable\<close>

text \<open>
  C1. When \<^verbatim>\<open>t_b\<close> requires grad, \<^verbatim>\<open>x_b_lower = 2*np.pi*torch.exp(-t_b)\<close> is a non-leaf
  tensor, and flagging it raises "you can only change requires_grad flags of leaf
  variables." before the model is evaluated on it: the Neumann block fails with this
  error for every model, \<^verbatim>\<open>mse_b\<close> fails with it unless the Dirichlet block has already
  failed, and the closure raises and leaves the state as it was.
\<close>

theorem mse_b_flag_violation:
  "requires_grad t_b \<Longrightarrow>
     (\<exists>x_b_lower.
        mul_t (number (2 * pi)) (exp_t (neg_t t_b)) = Inr x_b_lower \<and> \<not> is_leaf x_b_lower \<and>
        set_requires_grad ''x_b_lower'' x_b_lower = Inl (GraphViolation NonLeafFlag)) \<and>
     mse_neumann model t_b = Inl (GraphViolation NonLeafFlag) \<and>
     mse_b model t_b =
       ebind (mse_dirichlet model t_b) (\<lambda>d. Inl (GraphViolation NonLeafFlag)) \<and>
     (\<exists>e. closure model x_f t_f x_0 u_0 t_b st = (st, Inl e))"
proof -
  assume rg: "requires_grad t_b"
  then have rg': "requires_grad (exp_t (neg_t t_b))"
    by (cases t_b) (simp_all add: neg_t_def exp_t_def record_op_def)
  then have x: "\<exists>d. mul_t (number (2 * pi)) (exp_t (neg_t t_b)) =
      Inr (MulBackward d (number (2 * pi)) (exp_t (neg_t t_b)))"
    by (simp add: mul_t_def record_op_def ebind_def bop_def bshape_def number_def scalar_def)
  then have l: "\<exists>x_b_lower.
        mul_t (number (2 * pi)) (exp_t (neg_t t_b)) = Inr x_b_lower \<and> \<not> is_leaf x_b_lower \<and>
        set_requires_grad ''x_b_lower'' x_b_lower = Inl (GraphViolation NonLeafFlag)"
    by auto
  from x have n: "mse_neumann model t_b = Inl (GraphViolation NonLeafFlag)"
    by (auto simp: mse_neumann_def ebind_def)
  have b: "mse_b model t_b =
      ebind (mse_dirichlet model t_b) (\<lambda>d. Inl (GraphViolation NonLeafFlag))"
    by (simp add: mse_b_def n ebind_def)
  have "\<exists>e. mse_b model t_b = Inl e"
    by (cases "mse_dirichlet model t_b") (simp_all add: b ebind_def)
  then obtain e where e: "mse_b model t_b = Inl e" ..
  have "\<exists>e. combined_loss model x_f t_f x_0 u_0 t_b = Inl e"
    by (simp add: combined_loss_def ebind_def e split: sum.splits)
  then have c: "\<exists>e. closure model x_f t_f x_0 u_0 t_b st = (st, Inl e)"
    by (auto simp: closure_def)
  from l n b c show ?thesis by blast
qed

theorem mse_b_flag_violation_witness:
  "requires_grad (Var ''t_b'' (Arr [2] [Fin 0, Fin 1])) \<and>
   mse_neumann model_xt (Var ''t_b'' (Arr [2] [Fin 0, Fin 1])) = Inl (GraphViolation NonLeafFlag) \<and>
   mse_b model_xt (Var ''t_b'' (Arr [2] [Fin 0, Fin 1])) = Inl (GraphViolation NonLeafFlag)"
proof -
  have rg: "requires_grad (Var ''t_b'' (Arr [2] [Fin 0, Fin 1]))" by simp
  have d: "\<exists>d. mse_dirichlet model_xt (Var ''t_b'' (Arr [2] [Fin 0, Fin 1])) = Inr d"
    by (simp add: mse_dirichlet_def model_xt_def tensor_eval)
  from mse_b_flag_violation [OF rg, of model_xt] d rg show ?thesis
    by (auto simp: ebind_def)
qed


section \<open>Facts about arrays and scalar losses\<close>

text \<open>Two batches of the same length combine entry by entry.\<close>

lemma concat_chunks_1: "concat (chunks (Suc 0) n xs) = take n xs"
proof (induction n arbitrary: xs)
  case 0
  show ?case by simp
next
  case (Suc n)
  show ?case by (cases xs) (simp_all add: Suc.IH)
qed





text \<open>What the operations of the losses hold.\<close>

lemma data_record_op [simp]: "data (record_op rg t) = data t"
  by (simp add: record_op_def)

lemma data_mean_t [simp]: "data (mean_t a) = mean_arr (data a)"
  by (simp add: mean_t_def)

lemma data_pow_t [simp]: "data (pow_t a n) = map_arr (vpow n) (data a)"
  by (simp add: pow_t_def)

lemma bop_scalar: "bop g (scalar a) (scalar b) = Inr (scalar (g a b))"
  by (simp add: bop_def scalar_def bshape_def broadcast_to_def pad_shape_def)

lemma add_t_scalar:
  "data a = scalar va \<Longrightarrow> data b = scalar vb \<Longrightarrow>
   \<exists>c. add_t a b = Inr c \<and> data c = scalar (vadd va vb)"
  by (simp add: add_t_def bop_scalar ebind_def)

lemma data_mean_pow: "mean_arr (map_arr (vpow 2) d) = scalar (mean_square (vals d))"
  by (simp add: mean_arr_def map_arr_def mean_square_def)



text \<open>
  A column of shape \<open>[n, 1]\<close> and a batch of shape \<open>[n]\<close> broadcast to the matrix of all
  pairs, of shape \<open>[n, n]\<close>.
\<close>

lemma map_expand_scalar: "map (expand_vals [] []) yss = yss"
  by (induction yss) simp_all

lemma expand_row: "length ys = n \<Longrightarrow> expand_vals [Suc 0, n] [m, n] ys = concat (replicate m ys)"
  by (cases "m = Suc 0") (simp_all add: numel_def concat_chunks_1 map_expand_scalar)

lemma chunks_1_map: "length xs = n \<Longrightarrow> chunks (Suc 0) n xs = map (\<lambda>x. [x]) xs"
proof (induction n arbitrary: xs)
  case 0
  then show ?case by simp
next
  case (Suc n)
  then obtain x xs' where "xs = x # xs'" by (cases xs) auto
  with Suc show ?case by simp
qed

lemma expand_one: "expand_vals [Suc 0] [m] [x] = replicate m x"
  by (cases "m = Suc 0") (simp_all add: numel_def)

lemma expand_column:
  assumes len: "length xs = n"
  shows "expand_vals [n, Suc 0] [n, m] xs = concat (map (replicate m) xs)"
proof -
  have "expand_vals [n, Suc 0] [n, m] xs
      = concat (map (expand_vals [Suc 0] [m]) (chunks (Suc 0) n xs))"
    by (subst expand_vals.simps(1)) (simp add: numel_def Let_def del: expand_vals.simps)
  also have "\<dots> = concat (map (\<lambda>x. expand_vals [Suc 0] [m] [x]) xs)"
    by (simp add: chunks_1_map [OF len] comp_def del: expand_vals.simps)
  also have "\<dots> = concat (map (replicate m) xs)"
    by (simp only: expand_one)
  finally show ?thesis .
qed

lemma map2_replicate: "map2 g (replicate (length ys) x) ys = map (g x) ys"
  by (induction ys) simp_all

lemma map2_all_pairs:
  "map2 g (concat (map (replicate (length ys)) xs)) (concat (replicate (length xs) ys))
     = concat (map (\<lambda>x. map (g x) ys) xs)"
  by (induction xs) (simp_all add: map2_replicate)

lemma bop_column_batch:
  assumes lx: "length xs = n" and ly: "length ys = n"
  shows "bop g (Arr [n, Suc 0] xs) (Arr [n] ys)
     = Inr (Arr [n, n] (concat (map (\<lambda>x. map (g x) ys) xs)))"
proof -
  have s: "bshape [n, Suc 0] [n] = Some [n, n]"
    by (simp add: bshape_def)
  have a: "broadcast_to (Arr [n, Suc 0] xs) [n, n] = concat (map (replicate n) xs)"
    using expand_column [OF lx, of n] by (simp add: broadcast_to_def pad_shape_def del: expand_vals.simps)
  have b: "broadcast_to (Arr [n] ys) [n, n] = concat (replicate n ys)"
    using expand_row [OF ly, of n] by (simp add: broadcast_to_def pad_shape_def del: expand_vals.simps)
  show ?thesis
    using map2_all_pairs [of g ys xs] lx ly
    by (simp add: bop_def s a b del: expand_vals.simps)
qed

text \<open>A mean of squares is never negative: it is \<open>NaN\<close> or at least 0.\<close>

lemma not_negative_iff: "not_negative v = (v = NaN \<or> nonneg v)"
  by (cases v) simp_all

lemma not_negative_vadd: "not_negative a \<Longrightarrow> not_negative b \<Longrightarrow> not_negative (vadd a b)"
  by (cases a; cases b) (simp_all add: vadd_def)

lemma not_negative_vsum: "list_all not_negative vs \<Longrightarrow> not_negative (vsum vs)"
  by (induction vs) (simp_all add: vsum_def not_negative_vadd)

lemma not_negative_vpow2: "not_negative (vpow 2 v)"
  by (cases v) (simp_all add: eval_nat_numeral)

lemma not_negative_vdiv_count: "not_negative v \<Longrightarrow> not_negative (vdiv_count v n)"
  by (cases v; cases n) simp_all

lemma not_negative_mean_square: "not_negative (mean_square vs)"
  unfolding mean_square_def
  by (intro not_negative_vdiv_count not_negative_vsum) (simp add: list_all_iff not_negative_vpow2)

text \<open>Each loss that returns is a 0-dimensional tensor holding a mean of squares.\<close>

lemma mse_f_data:
  "mse_f model x_f t_f = Inr l \<Longrightarrow>
   \<exists>r. f model x_f t_f = Inr r \<and> data l = scalar (mean_square (vals (data r)))"
  by (auto simp: mse_f_def ebind_def data_mean_pow split: sum.splits)

lemma mse_0_data:
  "mse_0 model x_0 u_0 = Inr l \<Longrightarrow>
   \<exists>inp u d. stack_t x_0 (zeros_like x_0) = Inr inp \<and> model inp = Inr u \<and>
     sub_t u u_0 = Inr d \<and> data l = scalar (mean_square (vals (data d)))"
  by (auto simp: mse_0_def ebind_def data_mean_pow Let_def split: sum.splits)

lemma mse_dirichlet_data:
  "mse_dirichlet model t_b = Inr l \<Longrightarrow>
   \<exists>inp u. stack_t (Var ''x_b_upper'' (full (tshape t_b) (Fin 0))) t_b = Inr inp \<and>
     model inp = Inr u \<and> data l = scalar (mean_square (vals (data u)))"
  by (auto simp: mse_dirichlet_def ebind_def data_mean_pow zeros_like_def split: sum.splits)

lemma mse_neumann_data:
  "mse_neumann model t_b = Inr l \<Longrightarrow> \<exists>d. data l = scalar (mean_square (vals (data d)))"
  by (auto simp: mse_neumann_def ebind_def data_mean_pow split: sum.splits)

lemma mse_b_data:
  "mse_b model t_b = Inr l \<Longrightarrow>
   \<exists>d n v_d v_n. mse_dirichlet model t_b = Inr d \<and> mse_neumann model t_b = Inr n \<and>
     data d = scalar v_d \<and> data n = scalar v_n \<and> not_negative v_d \<and> not_negative v_n \<and>
     data l = scalar (vadd v_d v_n)"
proof -
  assume l: "mse_b model t_b = Inr l"
  then obtain d n where d: "mse_dirichlet model t_b = Inr d"
    and n: "mse_neumann model t_b = Inr n" and a: "add_t d n = Inr l"
    by (auto simp: mse_b_def ebind_def split: sum.splits)
  from mse_dirichlet_data [OF d] obtain u where vd: "data d = scalar (mean_square (vals (data u)))"
    by blast
  from mse_neumann_data [OF n] obtain e where vn: "data n = scalar (mean_square (vals (data e)))"
    by blast
  from add_t_scalar [OF vd vn] a
  have "data l = scalar (vadd (mean_square (vals (data u))) (mean_square (vals (data e))))"
    by auto
  with d n vd vn show ?thesis
    by (blast intro: not_negative_mean_square)
qed

lemma combined_loss_data:
  "combined_loss model x_f t_f x_0 u_0 t = Inr loss \<Longrightarrow>
   \<exists>l_f l_0 l_b v_f v_0 v_b.
     mse_f model x_f t_f = Inr l_f \<and> mse_0 model x_0 u_0 = Inr l_0 \<and> mse_b model t = Inr l_b \<and>
     data l_f = scalar v_f \<and> data l_0 = scalar v_0 \<and> data l_b = scalar v_b \<and>
     not_negative v_f \<and> not_negative v_0 \<and> not_negative v_b \<and>
     data loss = scalar (vadd (vadd v_f v_0) v_b)"
proof -
  assume "combined_loss model x_f t_f x_0 u_0 t = Inr loss"
  then obtain l_f l_0 l_f0 l_b where lf: "mse_f model x_f t_f = Inr l_f"
    and l0: "mse_0 model x_0 u_0 = Inr l_0" and a1: "add_t l_f l_0 = Inr l_f0"
    and lb: "mse_b model t = Inr l_b" and a2: "add_t l_f0 l_b = Inr loss"
    by (auto simp: combined_loss_def ebind_def split: sum.splits)
  from mse_f_data [OF lf] obtain r where vf: "data l_f = scalar (mean_square (vals (data r)))"
    by blast
  from mse_0_data [OF l0] obtain d where v0: "data l_0 = scalar (mean_square (vals (data d)))"
    by blast
  from mse_b_data [OF lb] obtain v_d v_n where vb: "data l_b = scalar (vadd v_d v_n)"
    and nn: "not_negative v_d" "not_negative v_n"
    by blast
  from add_t_scalar [OF vf v0] a1
  have vf0: "data l_f0 = scalar (vadd (mean_square (vals (data r))) (mean_square (vals (data d))))"
    by auto
  from add_t_scalar [OF vf0 vb] a2
  have "data loss = scalar (vadd (vadd (mean_square (vals (data r))) (mean_square (vals (data d))))
      (vadd v_d v_n))"
    by auto
  with lf l0 lb vf v0 vb nn show ?thesis
    by (blast intro: not_negative_mean_square not_negative_vadd)
qed

lemma combined_loss_total:
  "mse_f model x_f t_f = Inr l_f \<Longrightarrow> mse_0 model x_0 u_0 = Inr l_0 \<Longrightarrow>
   mse_b model t = Inr l_b \<Longrightarrow> \<exists>loss. combined_loss model x_f t_f x_0 u_0 t = Inr loss"
proof -
  assume lf: "mse_f model x_f t_f = Inr l_f" and l0: "mse_0 model x_0 u_0 = Inr l_0"
    and lb: "mse_b model t = Inr l_b"
  from mse_f_data [OF lf] obtain v_f where vf: "data l_f = scalar v_f" by blast
  from mse_0_data [OF l0] obtain v_0 where v0: "data l_0 = scalar v_0" by blast
  from mse_b_data [OF lb] obtain v_b where vb: "data l_b = scalar v_b" by blast
  from add_t_scalar [OF vf v0] obtain l_f0 where a1: "add_t l_f l_0 = Inr l_f0"
    and vf0: "data l_f0 = scalar (vadd v_f v_0)" by blast
  from add_t_scalar [OF vf0 vb] obtain loss where "add_t l_f0 l_b = Inr loss" by blast
  with lf l0 lb a1 show ?thesis
    by (simp add: combined_loss_def ebind_def)
qed

text \<open>
  What a closure evaluation that returns has done to the state, and what one that raises
  has: \<^verbatim>\<open>item()\<close> cannot fail on the combined loss, so an exception can only come from the
  losses or from \<^verbatim>\<open>backward()\<close>, before the counter is touched.
\<close>

lemma closure_returns:
  "closure model x_f t_f x_0 u_0 t st = (st', Inr loss) \<Longrightarrow>
   combined_loss model x_f t_f x_0 u_0 t = Inr loss \<and> requires_grad loss \<and>
   iter st' = iter st + 1 \<and>
   (\<exists>v. data loss = scalar v \<and>
     stdout st' = (if (iter st + 1) mod 50 = 0 then stdout st @ [(iter st + 1, v)] else stdout st))"
proof -
  assume c: "closure model x_f t_f x_0 u_0 t st = (st', Inr loss)"
  then obtain l where l: "combined_loss model x_f t_f x_0 u_0 t = Inr l"
    by (cases "combined_loss model x_f t_f x_0 u_0 t") (auto simp: closure_def)
  from combined_loss_data [OF l] obtain v where v: "data l = scalar v" by blast
  then have it: "item l = Inr v" by (simp add: item_def scalar_def)
  from c l it v show ?thesis
    by (auto simp: closure_def backward_def Let_def scalar_def split: if_splits)
qed

lemma closure_raises:
  "closure model x_f t_f x_0 u_0 t st = (st', Inl e) \<Longrightarrow> st' = st"
proof -
  assume c: "closure model x_f t_f x_0 u_0 t st = (st', Inl e)"
  show ?thesis
  proof (cases "combined_loss model x_f t_f x_0 u_0 t")
    case (Inl e')
    with c show ?thesis by (simp add: closure_def)
  next
    case (Inr l)
    from combined_loss_data [OF Inr] obtain v where v: "data l = scalar v" by blast
    then have it: "item l = Inr v" by (simp add: item_def scalar_def)
    from c Inr it show ?thesis
      by (auto simp: closure_def backward_def Let_def split: if_splits)
  qed
qed

lemma train_evals_iter:
  "train_evals ms x_f t_f x_0 u_0 t st = (st', r) \<Longrightarrow>
   iter st \<le> iter st' \<and>
   (case r of Inr losses \<Rightarrow> iter st' = iter st + int (length ms) \<and> length losses = length ms
            | Inl e \<Rightarrow> iter st' < iter st + int (length ms))"
proof (induction ms arbitrary: st st' r)
  case Nil
  then show ?case by auto
next
  case (Cons m ms)
  obtain st1 r1 where c: "closure m x_f t_f x_0 u_0 t st = (st1, r1)"
    by (cases "closure m x_f t_f x_0 u_0 t st")
  show ?case
  proof (cases r1)
    case (Inl e)
    with c closure_raises [of m x_f t_f x_0 u_0 t st st1 e] Cons.prems
    show ?thesis by auto
  next
    case (Inr loss)
    with c closure_returns [of m x_f t_f x_0 u_0 t st st1 loss]
    have i: "iter st1 = iter st + 1" by simp
    obtain st2 r2 where t: "train_evals ms x_f t_f x_0 u_0 t st1 = (st2, r2)"
      by (cases "train_evals ms x_f t_f x_0 u_0 t st1")
    from Cons.IH [OF t] i c Inr t Cons.prems
    show ?thesis by (auto split: sum.splits)
  qed
qed

section \<open>Concrete evaluations\<close>

text \<open>
  The closure on the model \<open>u = x\<^sup>2 t\<close> and one point per batch: the residual loss is
  \<open>(1 - 6)\<^sup>2 = 25\<close>, the initial-condition loss \<open>(0 - 2)\<^sup>2 = 4\<close>, the boundary loss 0.
\<close>

lemma example_mse_f: "map_sum id data (mse_f model_x2t ex_x_f ex_t_f) = Inr (scalar (Fin 25))"
  by (simp add: tensor_eval notebook_eval example_eval)

lemma example_mse_0: "map_sum id data (mse_0 model_x2t ex_x_0 ex_u_0) = Inr (scalar (Fin 4))"
  by (simp add: tensor_eval notebook_eval example_eval)

lemma example_mse_b: "map_sum id data (mse_b model_x2t ex_t_b) = Inr (scalar (Fin 0))"
  by (simp add: tensor_eval notebook_eval example_eval)

lemma example_closure:
  "map_prod id (map_sum id data)
     (closure model_x2t ex_x_f ex_t_f ex_x_0 ex_u_0 ex_t_b \<lparr>iter = 49, stdout = []\<rparr>)
   = (\<lparr>iter = 50, stdout = [(50, Fin 29)]\<rparr>, Inr (scalar (Fin 29)))"
  by (simp add: tensor_eval notebook_eval example_eval)

lemma example_closure_first:
  "map_prod id (map_sum id data)
     (closure model_x2t ex_x_f ex_t_f ex_x_0 ex_u_0 ex_t_b initial_state)
   = (\<lparr>iter = 1, stdout = []\<rparr>, Inr (scalar (Fin 29)))"
  by (simp add: tensor_eval notebook_eval example_eval)

lemma example_closure_raises:
  "closure model_x2t ex_x_f ex_t_f ex_x_0 ex_u_0 (Var ''t'' (Arr [1] [Fin 0])) initial_state
     = (initial_state, Inl (GraphViolation NonLeafFlag))"
  by (simp add: tensor_eval notebook_eval example_eval)

lemma example_train_evals:
  "map_prod id (map_sum id (map data))
     (train_evals [model_x2t, model_x2t] ex_x_f ex_t_f ex_x_0 ex_u_0 ex_t_b initial_state)
   = (\<lparr>iter = 2, stdout = []\<rparr>, Inr [scalar (Fin 29), scalar (Fin 29)])"
  by (simp add: tensor_eval notebook_eval example_eval)

lemma map_sum_Inr_D: "map_sum g h m = Inr y \<Longrightarrow> \<exists>x. m = Inr x \<and> h x = y"
  by (cases m) auto

lemma map_prod_sum_D:
  "map_prod id (map_sum id h) p = (s, Inr y) \<Longrightarrow> \<exists>x. p = (s, Inr x) \<and> h x = y"
  by (cases p) (auto dest: map_sum_Inr_D)

section \<open>Additivity of the loss\<close>

text \<open>
  C4. The loss a closure evaluation returns is the sum of the residual loss, the
  initial-condition loss and the boundary loss, added in this order; the boundary loss is
  the sum of its Dirichlet term and its Neumann term; and whenever the three sub-losses
  return, so does their sum. The equalities are between the entries the tensors hold
  (\<open>NaN\<close> included).
\<close>

theorem loss_additive:
  "(closure model x_f t_f x_0 u_0 t st = (st', Inr loss) \<longrightarrow>
      (\<exists>l_f l_0 l_b v_f v_0 v_b.
         mse_f model x_f t_f = Inr l_f \<and> mse_0 model x_0 u_0 = Inr l_0 \<and>
         mse_b model t = Inr l_b \<and>
         data l_f = scalar v_f \<and> data l_0 = scalar v_0 \<and> data l_b = scalar v_b \<and>
         data loss = scalar (vadd (vadd v_f v_0) v_b))) \<and>
   (mse_b model t = Inr l \<longrightarrow>
      (\<exists>d n v_d v_n.
         mse_dirichlet model t = Inr d \<and> mse_neumann model t = Inr n \<and>
         data d = scalar v_d \<and> data n = scalar v_n \<and>
         data l = scalar (vadd v_d v_n))) \<and>
   (mse_f model x_f t_f = Inr r_f \<and> mse_0 model x_0 u_0 = Inr r_0 \<and> mse_b model t = Inr r_b \<longrightarrow>
      (\<exists>loss. combined_loss model x_f t_f x_0 u_0 t = Inr loss))"
proof (intro conjI impI)
  assume "closure model x_f t_f x_0 u_0 t st = (st', Inr loss)"
  then have "combined_loss model x_f t_f x_0 u_0 t = Inr loss"
    by (simp add: closure_returns)
  from combined_loss_data [OF this]
  show "\<exists>l_f l_0 l_b v_f v_0 v_b.
         mse_f model x_f t_f = Inr l_f \<and> mse_0 model x_0 u_0 = Inr l_0 \<and>
         mse_b model t = Inr l_b \<and>
         data l_f = scalar v_f \<and> data l_0 = scalar v_0 \<and> data l_b = scalar v_b \<and>
         data loss = scalar (vadd (vadd v_f v_0) v_b)"
    by blast
next
  assume "mse_b model t = Inr l"
  from mse_b_data [OF this]
  show "\<exists>d n v_d v_n.
         mse_dirichlet model t = Inr d \<and> mse_neumann model t = Inr n \<and>
         data d = scalar v_d \<and> data n = scalar v_n \<and>
         data l = scalar (vadd v_d v_n)"
    by blast
next
  assume "mse_f model x_f t_f = Inr r_f \<and> mse_0 model x_0 u_0 = Inr r_0 \<and> mse_b model t = Inr r_b"
  then show "\<exists>loss. combined_loss model x_f t_f x_0 u_0 t = Inr loss"
    by (blast intro: combined_loss_total)
qed

theorem loss_additive_witness:
  "\<exists>loss l_f l_0 l_b.
     closure model_x2t ex_x_f ex_t_f ex_x_0 ex_u_0 ex_t_b initial_state
       = (\<lparr>iter = 1, stdout = []\<rparr>, Inr loss) \<and>
     mse_f model_x2t ex_x_f ex_t_f = Inr l_f \<and> data l_f = scalar (Fin 25) \<and>
     mse_0 model_x2t ex_x_0 ex_u_0 = Inr l_0 \<and> data l_0 = scalar (Fin 4) \<and>
     mse_b model_x2t ex_t_b = Inr l_b \<and> data l_b = scalar (Fin 0) \<and>
     data loss = scalar (vadd (vadd (Fin 25) (Fin 4)) (Fin 0))"
proof -
  from map_prod_sum_D [OF example_closure_first]
  obtain loss where c: "closure model_x2t ex_x_f ex_t_f ex_x_0 ex_u_0 ex_t_b initial_state
       = (\<lparr>iter = 1, stdout = []\<rparr>, Inr loss)"
    by blast
  from loss_additive [of model_x2t ex_x_f ex_t_f ex_x_0 ex_u_0 ex_t_b initial_state
      "\<lparr>iter = 1, stdout = []\<rparr>" loss] c
  obtain l_f l_0 l_b v_f v_0 v_b where
    s: "mse_f model_x2t ex_x_f ex_t_f = Inr l_f" "mse_0 model_x2t ex_x_0 ex_u_0 = Inr l_0"
       "mse_b model_x2t ex_t_b = Inr l_b"
    and v: "data l_f = scalar v_f" "data l_0 = scalar v_0" "data l_b = scalar v_b"
    and sum: "data loss = scalar (vadd (vadd v_f v_0) v_b)"
    by blast
  from s v example_mse_f example_mse_0 example_mse_b
  have "v_f = Fin 25" "v_0 = Fin 4" "v_b = Fin 0"
    by (auto simp: scalar_def)
  with c s v sum show ?thesis by blast
qed

section \<open>The sign of the loss\<close>

text \<open>
  C8, as amended. Each of the three sub-losses and the loss a closure evaluation returns
  is never negative: it is \<open>NaN\<close> or at least 0.
\<close>

theorem loss_never_negative:
  "(mse_f model x_f t_f = Inr l_f \<longrightarrow> (\<exists>v. data l_f = scalar v \<and> (v = NaN \<or> nonneg v))) \<and>
   (mse_0 model x_0 u_0 = Inr l_0 \<longrightarrow> (\<exists>v. data l_0 = scalar v \<and> (v = NaN \<or> nonneg v))) \<and>
   (mse_b model t = Inr l_b \<longrightarrow> (\<exists>v. data l_b = scalar v \<and> (v = NaN \<or> nonneg v))) \<and>
   (closure model x_f t_f x_0 u_0 t st = (st', Inr loss) \<longrightarrow>
      (\<exists>v. data loss = scalar v \<and> (v = NaN \<or> nonneg v)))"
proof (intro conjI impI)
  assume "mse_f model x_f t_f = Inr l_f"
  from mse_f_data [OF this] show "\<exists>v. data l_f = scalar v \<and> (v = NaN \<or> nonneg v)"
    using not_negative_mean_square by (auto simp: not_negative_iff)
next
  assume "mse_0 model x_0 u_0 = Inr l_0"
  from mse_0_data [OF this] show "\<exists>v. data l_0 = scalar v \<and> (v = NaN \<or> nonneg v)"
    using not_negative_mean_square by (auto simp: not_negative_iff)
next
  assume "mse_b model t = Inr l_b"
  from mse_b_data [OF this] obtain v_d v_n where "data l_b = scalar (vadd v_d v_n)"
    "not_negative v_d" "not_negative v_n"
    by blast
  then show "\<exists>v. data l_b = scalar v \<and> (v = NaN \<or> nonneg v)"
    using not_negative_vadd [of v_d v_n] by (auto simp: not_negative_iff)
next
  assume "closure model x_f t_f x_0 u_0 t st = (st', Inr loss)"
  then have "combined_loss model x_f t_f x_0 u_0 t = Inr loss"
    by (simp add: closure_returns)
  from combined_loss_data [OF this] obtain v_f v_0 v_b where
    "data loss = scalar (vadd (vadd v_f v_0) v_b)"
    "not_negative v_f" "not_negative v_0" "not_negative v_b"
    by blast
  then show "\<exists>v. data loss = scalar v \<and> (v = NaN \<or> nonneg v)"
    using not_negative_vadd [of "vadd v_f v_0" v_b] not_negative_vadd [of v_f v_0]
    by (auto simp: not_negative_iff)
qed

theorem loss_never_negative_witness:
  "\<exists>loss l_f l_0 l_b.
     closure model_x2t ex_x_f ex_t_f ex_x_0 ex_u_0 ex_t_b initial_state
       = (\<lparr>iter = 1, stdout = []\<rparr>, Inr loss) \<and>
     data loss = scalar (Fin 29) \<and> nonneg (Fin 29) \<and>
     mse_f model_x2t ex_x_f ex_t_f = Inr l_f \<and> data l_f = scalar (Fin 25) \<and> nonneg (Fin 25) \<and>
     mse_0 model_x2t ex_x_0 ex_u_0 = Inr l_0 \<and> data l_0 = scalar (Fin 4) \<and> nonneg (Fin 4) \<and>
     mse_b model_x2t ex_t_b = Inr l_b \<and> data l_b = scalar (Fin 0) \<and> nonneg (Fin 0)"
proof -
  from map_prod_sum_D [OF example_closure_first]
  obtain loss where c: "closure model_x2t ex_x_f ex_t_f ex_x_0 ex_u_0 ex_t_b initial_state
       = (\<lparr>iter = 1, stdout = []\<rparr>, Inr loss)" and d: "data loss = scalar (Fin 29)"
    by blast
  from map_sum_Inr_D [OF example_mse_f] obtain l_f where
    f: "mse_f model_x2t ex_x_f ex_t_f = Inr l_f" "data l_f = scalar (Fin 25)" by blast
  from map_sum_Inr_D [OF example_mse_0] obtain l_0 where
    z: "mse_0 model_x2t ex_x_0 ex_u_0 = Inr l_0" "data l_0 = scalar (Fin 4)" by blast
  from map_sum_Inr_D [OF example_mse_b] obtain l_b where
    b: "mse_b model_x2t ex_t_b = Inr l_b" "data l_b = scalar (Fin 0)" by blast
  note th = loss_never_negative [of model_x2t ex_x_f ex_t_f l_f ex_x_0 ex_u_0 l_0 ex_t_b l_b
      initial_state "\<lparr>iter = 1, stdout = []\<rparr>" loss]
  from th c d have n: "nonneg (Fin 29)" by (auto simp: scalar_def)
  from th f have nf: "nonneg (Fin 25)" by (auto simp: scalar_def)
  from th z have n0: "nonneg (Fin 4)" by (auto simp: scalar_def)
  from th b have nb: "nonneg (Fin 0)" by (auto simp: scalar_def)
  from c d n f nf z n0 b nb show ?thesis by blast
qed

text \<open>
  C8 as stated fails on empty batches: the mean over no elements is \<open>NaN\<close>, which is
  not \<open>\<ge> 0\<close>, and the closure returns it.
\<close>

theorem loss_nan_counterexample:
  "map_sum id data (mse_0 model_x2t (Var ''x_0'' (Arr [0] [])) (Const (Arr [0] [])))
     = Inr (scalar NaN) \<and>
   map_prod id (map_sum id data)
     (closure model_x2t (Var ''x_f'' (Arr [0] [])) (Var ''t_f'' (Arr [0] []))
        (Var ''x_0'' (Arr [0] [])) (Const (Arr [0] [])) (Const (Arr [0] [])) initial_state)
     = (\<lparr>iter = 1, stdout = []\<rparr>, Inr (scalar NaN)) \<and>
   \<not> nonneg NaN"
  by (simp add: tensor_eval notebook_eval initial_state_def)

section \<open>The iteration counter\<close>

text \<open>
  C6, as amended. A closure evaluation that returns a loss has incremented the counter
  by exactly one and has printed the counter and the loss if and only if the incremented
  counter is a multiple of 50. An evaluation that raises leaves the counter and the
  output as they were. Over a run of the optimizer the counter never decreases: it grows
  by the number of evaluations that returned. It is 0 when the process starts.
\<close>

theorem closure_counter:
  "(closure model x_f t_f x_0 u_0 t st = (st', Inr loss) \<longrightarrow>
      iter st' = iter st + 1 \<and>
      (\<exists>v. item loss = Inr v \<and>
         stdout st' = (if iter st' mod 50 = 0 then stdout st @ [(iter st', v)] else stdout st))) \<and>
   (closure model x_f t_f x_0 u_0 t st = (st', Inl e) \<longrightarrow> st' = st) \<and>
   (train_evals ms x_f t_f x_0 u_0 t st = (st'', r) \<longrightarrow>
      iter st \<le> iter st'' \<and>
      (case r of Inr losses \<Rightarrow> iter st'' = iter st + int (length ms)
               | Inl e \<Rightarrow> iter st'' < iter st + int (length ms))) \<and>
   iter initial_state = 0"
proof (intro conjI impI)
  assume c: "closure model x_f t_f x_0 u_0 t st = (st', Inr loss)"
  from closure_returns [OF c] show "iter st' = iter st + 1" by simp
  from closure_returns [OF c]
  show "\<exists>v. item loss = Inr v \<and>
         stdout st' = (if iter st' mod 50 = 0 then stdout st @ [(iter st', v)] else stdout st)"
    by (auto simp: item_def scalar_def)
next
  assume "closure model x_f t_f x_0 u_0 t st = (st', Inl e)"
  then show "st' = st" by (rule closure_raises)
next
  assume t: "train_evals ms x_f t_f x_0 u_0 t st = (st'', r)"
  from train_evals_iter [OF t] show "iter st \<le> iter st''" by simp
  from train_evals_iter [OF t]
  show "case r of Inr losses \<Rightarrow> iter st'' = iter st + int (length ms)
               | Inl e \<Rightarrow> iter st'' < iter st + int (length ms)"
    by (auto split: sum.splits)
next
  show "iter initial_state = 0" by (simp add: initial_state_def)
qed

theorem closure_counter_witness:
  "(\<exists>loss.
     closure model_x2t ex_x_f ex_t_f ex_x_0 ex_u_0 ex_t_b \<lparr>iter = 49, stdout = []\<rparr>
       = (\<lparr>iter = 50, stdout = [(50, Fin 29)]\<rparr>, Inr loss) \<and>
     iter \<lparr>iter = 50, stdout = [(50, Fin 29)]\<rparr> = iter \<lparr>iter = 49, stdout = []\<rparr> + 1 \<and>
     item loss = Inr (Fin 29)) \<and>
   closure model_x2t ex_x_f ex_t_f ex_x_0 ex_u_0 (Var ''t'' (Arr [1] [Fin 0])) initial_state
     = (initial_state, Inl (GraphViolation NonLeafFlag)) \<and>
   (\<exists>losses.
     train_evals [model_x2t, model_x2t] ex_x_f ex_t_f ex_x_0 ex_u_0 ex_t_b initial_state
       = (\<lparr>iter = 2, stdout = []\<rparr>, Inr losses) \<and>
     iter \<lparr>iter = 2, stdout = []\<rparr> = iter initial_state + int (length [model_x2t, model_x2t]))"
proof -
  from map_prod_sum_D [OF example_closure]
  obtain loss where c: "closure model_x2t ex_x_f ex_t_f ex_x_0 ex_u_0 ex_t_b \<lparr>iter = 49, stdout = []\<rparr>
       = (\<lparr>iter = 50, stdout = [(50, Fin 29)]\<rparr>, Inr loss)"
    by blast
  from closure_counter [of model_x2t ex_x_f ex_t_f ex_x_0 ex_u_0 ex_t_b "\<lparr>iter = 49, stdout = []\<rparr>"
      "\<lparr>iter = 50, stdout = [(50, Fin 29)]\<rparr>" loss] c
  have "iter \<lparr>iter = 50, stdout = [(50, Fin 29)]\<rparr> = iter \<lparr>iter = 49, stdout = []\<rparr> + 1"
    and "\<exists>v. item loss = Inr v \<and> [(50, Fin 29)] = [(50, v)]"
    by auto
  with c have 1: "\<exists>loss.
     closure model_x2t ex_x_f ex_t_f ex_x_0 ex_u_0 ex_t_b \<lparr>iter = 49, stdout = []\<rparr>
       = (\<lparr>iter = 50, stdout = [(50, Fin 29)]\<rparr>, Inr loss) \<and>
     iter \<lparr>iter = 50, stdout = [(50, Fin 29)]\<rparr> = iter \<lparr>iter = 49, stdout = []\<rparr> + 1 \<and>
     item loss = Inr (Fin 29)"
    by auto
  from map_prod_sum_D [OF example_train_evals]
  obtain losses where t: "train_evals [model_x2t, model_x2t] ex_x_f ex_t_f ex_x_0 ex_u_0 ex_t_b initial_state
       = (\<lparr>iter = 2, stdout = []\<rparr>, Inr losses)"
    by blast
  from closure_counter [of _ ex_x_f ex_t_f ex_x_0 ex_u_0 ex_t_b initial_state _ _ _
      "[model_x2t, model_x2t]" "\<lparr>iter = 2, stdout = []\<rparr>" "Inr losses"] t
  have "iter \<lparr>iter = 2, stdout = []\<rparr> = iter initial_state + int (length [model_x2t, model_x2t])"
    by simp
  with t have 3: "\<exists>losses.
     train_evals [model_x2t, model_x2t] ex_x_f ex_t_f ex_x_0 ex_u_0 ex_t_b initial_state
       = (\<lparr>iter = 2, stdout = []\<rparr>, Inr losses) \<and>
     iter \<lparr>iter = 2, stdout = []\<rparr> = iter initial_state + int (length [model_x2t, model_x2t])"
    by blast
  from 1 example_closure_raises 3 show ?thesis by (intro conjI)
qed

text \<open>
  C6 as stated fails on an evaluation that raises, as the one the notebook records: with
  a \<^verbatim>\<open>t\<close> that requires grad the closure raises in \<^verbatim>\<open>mse_b\<close> and the counter stays 0.
\<close>

theorem closure_counter_counterexample:
  "closure model_x2t ex_x_f ex_t_f ex_x_0 ex_u_0 (Var ''t'' (Arr [1] [Fin 0])) initial_state
     = (initial_state, Inl (GraphViolation NonLeafFlag)) \<and>
   iter (fst (closure model_x2t ex_x_f ex_t_f ex_x_0 ex_u_0 (Var ''t'' (Arr [1] [Fin 0]))
     initial_state)) \<noteq> iter initial_state + 1"
  by (simp add: tensor_eval notebook_eval example_eval)

section \<open>Predictions of shape [N, 1] against batches of shape [N]\<close>

text \<open>
  Whenever the prediction is a column of shape \<open>[n, 1]\<close>, as that of a network ending in
  \<^verbatim>\<open>nn.Linear(100, 1)\<close> is, \<^verbatim>\<open>mse_0\<close> is the mean square of the differences of all pairs
  of a prediction and a target, and the Neumann block the mean square of the differences
  of all pairs of a prediction and a derivative.
\<close>

lemma mse_0_column:
  assumes "stack_t x_0 (zeros_like x_0) = Inr inp" and "model inp = Inr u"
    and "data u = Arr [n, 1] us" and "data u_0 = Arr [n] ts"
    and "length us = n" and "length ts = n"
  shows "map_sum id data (mse_0 model x_0 u_0)
     = Inr (scalar (mean_square (concat (map (\<lambda>p. map (vsub p) ts) us))))"
  using assms
  by (simp add: mse_0_def Let_def ebind_def sub_t_def bop_column_batch data_mean_pow)

lemma mse_neumann_column:
  assumes "mul_t (number (2 * pi)) (exp_t (neg_t t_b)) = Inr x0"
    and "set_requires_grad ''x_b_lower'' x0 = Inr x_b_lower"
    and "stack_t x_b_lower t_b = Inr inp" and "model inp = Inr u"
    and "derivative u x_b_lower 1 = Inr u_x"
    and "data u = Arr [n, 1] us" and "data u_x = Arr [n] ds"
    and "length us = n" and "length ds = n"
  shows "map_sum id data (mse_neumann model t_b)
     = Inr (scalar (mean_square (concat (map (\<lambda>p. map (vsub p) ds) us))))"
  using assms
  by (simp add: mse_neumann_def ebind_def sub_t_def bop_column_batch data_mean_pow)

text \<open>
  C7. On \<open>x_0 = 0, 1/4\<close> with the targets \<open>u_0 = sin (2 \<pi> x_0) = 0, 1\<close>, the model
  \<open>sin (2 \<pi> x)\<close> predicts the targets exactly, as a column of shape \<open>[2, 1]\<close>. \<^verbatim>\<open>f - u_0\<close>
  broadcasts the column against the batch of shape \<open>[2]\<close> to all four differences
  \<open>f\<^sub>i - u_0\<^sub>j\<close>, and \<^verbatim>\<open>mse_0\<close> returns their mean square \<open>1/2\<close>, where the mean square of
  the two differences \<open>f\<^sub>i - u_0\<^sub>i\<close> is 0.
\<close>

theorem mse_0_broadcast:
  "map_sum id data (ebind (stack_t ex_x_ic (zeros_like ex_x_ic)) model_sin)
     = Inr (Arr [2, 1] (vals (data ex_u_ic))) \<and>
   map_sum id data (mse_0 model_sin ex_x_ic ex_u_ic)
     = Inr (scalar (mean_square [vsub (Fin 0) (Fin 0), vsub (Fin 0) (Fin 1),
                                 vsub (Fin 1) (Fin 0), vsub (Fin 1) (Fin 1)])) \<and>
   mean_square [vsub (Fin 0) (Fin 0), vsub (Fin 0) (Fin 1),
                vsub (Fin 1) (Fin 0), vsub (Fin 1) (Fin 1)] = Fin (1 / 2) \<and>
   mean_square [vsub (Fin 0) (Fin 0), vsub (Fin 1) (Fin 1)] = Fin 0"
  apply (intro conjI)
     apply (simp add: tensor_eval notebook_eval ex_x_ic_def ex_u_ic_def)
    apply (simp add: tensor_eval notebook_eval ex_x_ic_def ex_u_ic_def mean_square_def)
   apply (simp add: mean_square_def vsum_def vadd_def vsub_def eval_nat_numeral)
  apply (simp add: mean_square_def vsum_def vadd_def vsub_def eval_nat_numeral)
  done

text \<open>The spatial coordinate the Neumann block builds from \<open>t_b = 0, 1\<close>.\<close>

lemma example_neumann_x:
  "map_sum id data (ebind (mul_t (number (2 * pi)) (exp_t (neg_t ex_t_bc))) (set_requires_grad ''x_b_lower''))
   = Inr (Arr [2] [Fin (2 * pi), Fin (2 * pi * exp (- 1))])"
  by (simp add: tensor_eval notebook_eval ex_t_bc_def)

text \<open>
  C2. On \<open>t_b = 0, 1\<close>, which does not require grad, and the model \<open>u = x t\<close>, the
  Neumann block evaluates the model at \<open>x = 2 \<pi> e\<^sup>-\<^sup>t\<close>, where it predicts
  \<open>0, 2 \<pi> / e\<close> as a column of shape \<open>[2, 1]\<close> and has the spatial derivative \<open>u_x = t\<close>,
  \<open>0, 1\<close>, of shape \<open>[2]\<close>. \<^verbatim>\<open>u_b_lower - u_x_b_lower\<close> broadcasts to all four
  differences, and \<^verbatim>\<open>mse_neumann\<close> is their mean square, which is not the mean square of
  the two differences taken at the same point.
\<close>

theorem mse_neumann_broadcast:
  "map_sum id data
     (ebind (stack_t (Var ''x_b_lower'' (Arr [2] [Fin (2 * pi), Fin (2 * pi * exp (- 1))])) ex_t_bc)
        model_xt)
     = Inr (Arr [2, 1] [Fin 0, Fin (2 * pi * exp (- 1))]) \<and>
   map_sum id data
     (ebind (ebind (stack_t (Var ''x_b_lower'' (Arr [2] [Fin (2 * pi), Fin (2 * pi * exp (- 1))])) ex_t_bc)
        model_xt)
        (\<lambda>u. derivative u (Var ''x_b_lower'' (Arr [2] [Fin (2 * pi), Fin (2 * pi * exp (- 1))])) 1))
     = Inr (Arr [2] [Fin 0, Fin 1]) \<and>
   map_sum id data (mse_neumann model_xt ex_t_bc)
     = Inr (scalar (mean_square
         [vsub (Fin 0) (Fin 0), vsub (Fin 0) (Fin 1),
          vsub (Fin (2 * pi * exp (- 1))) (Fin 0), vsub (Fin (2 * pi * exp (- 1))) (Fin 1)])) \<and>
   mean_square
     [vsub (Fin 0) (Fin 0), vsub (Fin 0) (Fin 1),
      vsub (Fin (2 * pi * exp (- 1))) (Fin 0), vsub (Fin (2 * pi * exp (- 1))) (Fin 1)]
   \<noteq> mean_square [vsub (Fin 0) (Fin 0), vsub (Fin (2 * pi * exp (- 1))) (Fin 1)]"
proof (intro conjI)
  show "map_sum id data
     (ebind (stack_t (Var ''x_b_lower'' (Arr [2] [Fin (2 * pi), Fin (2 * pi * exp (- 1))])) ex_t_bc)
        model_xt)
     = Inr (Arr [2, 1] [Fin 0, Fin (2 * pi * exp (- 1))])"
    by (simp add: tensor_eval notebook_eval ex_t_bc_def)
  show "map_sum id data
     (ebind (ebind (stack_t (Var ''x_b_lower'' (Arr [2] [Fin (2 * pi), Fin (2 * pi * exp (- 1))])) ex_t_bc)
        model_xt)
        (\<lambda>u. derivative u (Var ''x_b_lower'' (Arr [2] [Fin (2 * pi), Fin (2 * pi * exp (- 1))])) 1))
     = Inr (Arr [2] [Fin 0, Fin 1])"
    by (simp add: tensor_eval notebook_eval ex_t_bc_def)
  show "map_sum id data (mse_neumann model_xt ex_t_bc)
     = Inr (scalar (mean_square
         [vsub (Fin 0) (Fin 0), vsub (Fin 0) (Fin 1),
          vsub (Fin (2 * pi * exp (- 1))) (Fin 0), vsub (Fin (2 * pi * exp (- 1))) (Fin 1)]))"
    by (simp add: tensor_eval notebook_eval ex_t_bc_def mean_square_def)
  define a :: real where "a = 2 * pi * exp (- 1)"
  have pos: "0 < a" by (simp add: a_def)
  have "(1 + a\<^sup>2 + (a - 1)\<^sup>2) / 4 - (a - 1)\<^sup>2 / 2 = a / 2"
    by (simp add: power2_eq_square field_simps)
  with pos have ne: "(1 + a\<^sup>2 + (a - 1)\<^sup>2) / 4 \<noteq> (a - 1)\<^sup>2 / 2"
    by auto
  have l: "mean_square [vsub (Fin 0) (Fin 0), vsub (Fin 0) (Fin 1), vsub (Fin a) (Fin 0),
      vsub (Fin a) (Fin 1)] = Fin ((1 + a\<^sup>2 + (a - 1)\<^sup>2) / 4)"
    by (simp add: mean_square_def vsum_def vadd_def vsub_def eval_nat_numeral power2_eq_square)
  have r: "mean_square [vsub (Fin 0) (Fin 0), vsub (Fin a) (Fin 1)] = Fin ((a - 1)\<^sup>2 / 2)"
    by (simp add: mean_square_def vsum_def vadd_def vsub_def eval_nat_numeral power2_eq_square)
  from ne show "mean_square
     [vsub (Fin 0) (Fin 0), vsub (Fin 0) (Fin 1),
      vsub (Fin (2 * pi * exp (- 1))) (Fin 0), vsub (Fin (2 * pi * exp (- 1))) (Fin 1)]
   \<noteq> mean_square [vsub (Fin 0) (Fin 0), vsub (Fin (2 * pi * exp (- 1))) (Fin 1)]"
    unfolding l [unfolded a_def] r [unfolded a_def] a_def by simp
qed

section \<open>The shape of a gradient\<close>

text \<open>
  Every array operation takes well-formed arrays to a well-formed array, of the shape the
  operation gives.
\<close>

lemma length_chunks [simp]: "length (chunks k n vs) = n"
  by (induction n arbitrary: vs) simp_all

lemma chunks_length: "length vs = n * k \<Longrightarrow> c \<in> set (chunks k n vs) \<Longrightarrow> length c = k"
proof (induction n arbitrary: vs)
  case 0
  then show ?case by simp
next
  case (Suc n)
  from Suc.prems(2) have "c = take k vs \<or> c \<in> set (chunks k n (drop k vs))" by simp
  then show ?case
  proof
    assume "c = take k vs"
    with Suc.prems(1) show ?thesis by simp
  next
    assume "c \<in> set (chunks k n (drop k vs))"
    moreover from Suc.prems(1) have "length (drop k vs) = n * k" by simp
    ultimately show ?thesis by (rule Suc.IH [rotated])
  qed
qed

lemma length_concat_map:
  "(\<And>x. x \<in> set xs \<Longrightarrow> length (h x) = l) \<Longrightarrow> length (concat (map h xs)) = length xs * l"
  by (induction xs) simp_all

lemma length_concat_replicate: "length (concat (replicate n xs)) = n * length xs"
  by (induction n) simp_all

lemma numel_Cons [simp]: "numel (n # ns) = n * numel ns"
  by (simp add: numel_def)

lemma numel_Nil [simp]: "numel [] = 1"
  by (simp add: numel_def)

lemma length_expand_vals:
  "fits src tgt \<Longrightarrow> length vs = numel src \<Longrightarrow> length (expand_vals src tgt vs) = numel tgt"
proof (induction src tgt vs rule: expand_vals.induct)
  case (1 m ms n ns vs)
  from "1.prems" have f: "fits ms ns" and mn: "m = n \<or> m = 1" and len: "length vs = m * numel ms"
    by (simp_all add: fits_def)
  have "length (concat (map (expand_vals ms ns) (chunks (numel ms) m vs))) = m * numel ns"
  proof -
    have "length (concat (map (expand_vals ms ns) (chunks (numel ms) m vs)))
        = length (chunks (numel ms) m vs) * numel ns"
    proof (rule length_concat_map)
      fix x assume x: "x \<in> set (chunks (numel ms) m vs)"
      with len have "length x = numel ms" by (rule chunks_length)
      with x f show "length (expand_vals ms ns x) = numel ns" using "1.IH" by simp
    qed
    then show ?thesis by simp
  qed
  with mn show ?case by (auto simp: Let_def length_concat_replicate)
qed (auto simp: fits_def)


lemma numel_replicate_1 [simp]: "numel (replicate k (Suc 0) @ s) = numel s"
  by (induction k) (simp_all add: numel_def)

lemma numel_pad_shape [simp]: "numel (pad_shape r s) = numel s"
  by (simp add: pad_shape_def)


lemma fits_refl [simp]: "fits s s"
  by (simp add: fits_def list_all2_refl)

lemma bshape_rev_fits:
  "bshape_rev xs ys = Some zs \<Longrightarrow>
   list_all2 (\<lambda>m n. m = n \<or> m = 1) (xs @ replicate (length zs - length xs) 1) zs \<and>
   list_all2 (\<lambda>m n. m = n \<or> m = 1) (ys @ replicate (length zs - length ys) 1) zs"
proof (induction xs ys arbitrary: zs rule: bshape_rev.induct)
  case (1 ys)
  then show ?case by (simp add: list_all2_refl list_all2_conv_all_nth)
next
  case (2 x xs)
  then show ?case by (auto simp: list_all2_refl list_all2_conv_all_nth)
next
  case (3 x xs y ys)
  then show ?case by (auto split: if_splits)
qed

lemma bshape_fits:
  assumes "bshape s1 s2 = Some s"
  shows "fits (pad_shape (length s) s1) s" and "fits (pad_shape (length s) s2) s"
proof -
  from assms obtain zs where z: "bshape_rev (rev s1) (rev s2) = Some zs" and s: "s = rev zs"
    by (auto simp: bshape_def)
  from bshape_rev_fits [OF z]
  have a: "list_all2 (\<lambda>m n. m = n \<or> m = 1) (rev s1 @ replicate (length zs - length s1) 1) zs"
    and b: "list_all2 (\<lambda>m n. m = n \<or> m = 1) (rev s2 @ replicate (length zs - length s2) 1) zs"
    by simp_all
  have r: "rev (replicate k (1::nat) @ t) = rev t @ replicate k 1" for k t
    by simp
  from a show "fits (pad_shape (length s) s1) s"
    unfolding fits_def pad_shape_def s
    by (subst list_all2_rev [symmetric]) (simp only: r rev_rev_ident length_rev)
  from b show "fits (pad_shape (length s) s2) s"
    unfolding fits_def pad_shape_def s
    by (subst list_all2_rev [symmetric]) (simp only: r rev_rev_ident length_rev)
qed

lemma length_broadcast_to:
  "well_formed_arr a \<Longrightarrow> fits (pad_shape (length s) (shape a)) s \<Longrightarrow>
   length (broadcast_to a s) = numel s"
  by (simp add: broadcast_to_def well_formed_arr_def length_expand_vals)

lemma bshape_same [simp]: "bshape s s = Some s"
proof -
  have "bshape_rev xs xs = Some xs" for xs
    by (induction xs) simp_all
  then show ?thesis by (simp add: bshape_def)
qed

lemma well_formed_bop:
  "bop g a b = Inr c \<Longrightarrow> well_formed_arr a \<Longrightarrow> well_formed_arr b \<Longrightarrow>
   well_formed_arr c \<and> bshape (shape a) (shape b) = Some (shape c)"
  by (auto simp: bop_def well_formed_arr_def [of "Arr _ _"] length_broadcast_to bshape_fits
      split: option.splits)


lemma well_formed_full [simp]: "well_formed_arr (full s v)"
  by (simp add: well_formed_arr_def full_def)

lemma well_formed_scalar [simp]: "well_formed_arr (scalar v)"
  by (simp add: well_formed_arr_def scalar_def)

lemma well_formed_map_arr [simp]: "well_formed_arr (map_arr h a) = well_formed_arr a"
  by (simp add: well_formed_arr_def map_arr_def)

lemma shape_map_arr [simp]: "shape (map_arr h a) = shape a"
  by (simp add: map_arr_def)

lemma well_formed_mean_arr [simp]: "well_formed_arr (mean_arr a)"
  by (simp add: mean_arr_def)

lemma shape_mean_arr [simp]: "shape (mean_arr a) = []"
  by (simp add: mean_arr_def scalar_def)






lemma well_formed_stack_arr:
  assumes st: "stack_arr a b = Inr c" and wa: "well_formed_arr a" and wb: "well_formed_arr b"
  shows "well_formed_arr c \<and> shape a = shape b \<and>
    (\<exists>n rest. shape a = n # rest \<and> shape c = n # 2 # rest)"
proof -
  from st have eq: "shape a = shape b"
    by (simp add: stack_arr_def split: if_splits list.splits)
  have "shape a \<noteq> []"
  proof
    assume "shape a = []"
    with st show False by (simp add: stack_arr_def)
  qed
  then obtain n rest where s: "shape a = n # rest"
    by (cases "shape a") simp_all
  let ?ca = "chunks (numel rest) n (vals a)" and ?cb = "chunks (numel rest) n (vals b)"
  from eq s have sb: "shape b = n # rest" by simp
  from st s sb have c: "c = Arr (n # 2 # rest) (concat (map2 (@) ?ca ?cb))"
    by (simp add: stack_arr_def)
  from wa wb s sb have la: "length (vals a) = n * numel rest" and lb: "length (vals b) = n * numel rest"
    by (simp_all add: well_formed_arr_def)
  have "length (concat (map (\<lambda>(x, y). x @ y) (zip ?ca ?cb))) = length (zip ?ca ?cb) * (2 * numel rest)"
  proof (rule length_concat_map)
    fix p assume p: "p \<in> set (zip ?ca ?cb)"
    obtain x y where xy: "p = (x, y)" by (cases p)
    from p xy have "x \<in> set ?ca" by (auto dest: set_zip_leftD)
    with la have x: "length x = numel rest" by (rule chunks_length)
    from p xy have "y \<in> set ?cb" by (auto dest: set_zip_rightD)
    with lb have y: "length y = numel rest" by (rule chunks_length)
    from x y show "length (case p of (x, y) \<Rightarrow> x @ y) = 2 * numel rest"
      by (simp add: xy)
  qed
  then have "well_formed_arr c"
    by (simp add: c well_formed_arr_def)
  with s sb c show ?thesis by simp
qed



lemma well_formed_select_arr:
  assumes "select_arr k a = Inr c" "well_formed_arr a"
  shows "well_formed_arr c \<and> (\<exists>n m rest. shape a = n # m # rest \<and> k < m \<and> shape c = n # rest)"
proof -
  from assms(1) obtain n m rest where s: "shape a = n # m # rest" and k: "k < m"
    and c: "c = Arr (n # rest)
                 (concat (map (\<lambda>row. take (numel rest) (drop (k * numel rest) row))
                              (chunks (m * numel rest) n (vals a))))"
    by (auto simp: select_arr_def split: if_splits list.splits)
  from assms(2) s have la: "length (vals a) = n * (m * numel rest)"
    by (simp add: well_formed_arr_def)
  have "length (concat (map (\<lambda>row. take (numel rest) (drop (k * numel rest) row))
                              (chunks (m * numel rest) n (vals a))))
      = length (chunks (m * numel rest) n (vals a)) * numel rest"
  proof (rule length_concat_map)
    fix row assume "row \<in> set (chunks (m * numel rest) n (vals a))"
    with la have "length row = m * numel rest" by (rule chunks_length)
    moreover have "numel rest \<le> m * numel rest - k * numel rest"
    proof -
      from k have "1 \<le> m - k" by simp
      then have "1 * numel rest \<le> (m - k) * numel rest" by (rule mult_le_mono1)
      then show ?thesis by (simp add: diff_mult_distrib)
    qed
    ultimately show "length (take (numel rest) (drop (k * numel rest) row)) = numel rest"
      by simp
  qed
  then have "well_formed_arr c"
    by (simp add: c well_formed_arr_def)
  with s k c show ?thesis by simp
qed








lemma well_formed_view_arr:
  "view_arr s a = Inr c \<Longrightarrow> well_formed_arr a \<Longrightarrow>
   well_formed_arr c \<and> shape c = s \<and> numel s = numel (shape a)"
  by (auto simp: view_arr_def well_formed_arr_def split: if_splits)

text \<open>The tensor operations build well-formed tensors from well-formed tensors.\<close>

lemma well_formed_data: "well_formed t \<Longrightarrow> well_formed_arr (data t)"
  by (cases t) simp_all

lemma well_formed_record_op: "well_formed t \<Longrightarrow> well_formed (record_op rg t)"
  by (simp add: record_op_def well_formed_data)


lemma well_formed_sub_t:
  "sub_t a b = Inr c \<Longrightarrow> well_formed a \<Longrightarrow> well_formed b \<Longrightarrow>
   well_formed c \<and> bshape (tshape a) (tshape b) = Some (tshape c)"
proof -
  assume c: "sub_t a b = Inr c" and a: "well_formed a" and b: "well_formed b"
  from c obtain d where d: "bop vsub (data a) (data b) = Inr d"
    and r: "c = record_op (requires_grad a \<or> requires_grad b) (SubBackward d a b)"
    by (auto simp: sub_t_def ebind_def split: sum.splits)
  from well_formed_bop [OF d well_formed_data [OF a] well_formed_data [OF b]] a b r
  show ?thesis by (simp add: well_formed_record_op)
qed

lemma well_formed_mul_t:
  "mul_t a b = Inr c \<Longrightarrow> well_formed a \<Longrightarrow> well_formed b \<Longrightarrow>
   well_formed c \<and> bshape (tshape a) (tshape b) = Some (tshape c)"
proof -
  assume c: "mul_t a b = Inr c" and a: "well_formed a" and b: "well_formed b"
  from c obtain d where d: "bop vmul (data a) (data b) = Inr d"
    and r: "c = record_op (requires_grad a \<or> requires_grad b) (MulBackward d a b)"
    by (auto simp: mul_t_def ebind_def split: sum.splits)
  from well_formed_bop [OF d well_formed_data [OF a] well_formed_data [OF b]] a b r
  show ?thesis by (simp add: well_formed_record_op)
qed


lemma well_formed_sin_t: "well_formed a \<Longrightarrow> well_formed (sin_t a) \<and> tshape (sin_t a) = tshape a"
  by (simp add: sin_t_def well_formed_record_op well_formed_data)


lemma well_formed_exp_t: "well_formed a \<Longrightarrow> well_formed (exp_t a) \<and> tshape (exp_t a) = tshape a"
  by (simp add: exp_t_def well_formed_record_op well_formed_data)

lemma well_formed_pow_t: "well_formed a \<Longrightarrow> well_formed (pow_t a n) \<and> tshape (pow_t a n) = tshape a"
  by (simp add: pow_t_def well_formed_record_op well_formed_data)

lemma well_formed_mean_t: "well_formed a \<Longrightarrow> well_formed (mean_t a) \<and> tshape (mean_t a) = []"
  by (simp add: mean_t_def well_formed_record_op)

lemma shape_scalar [simp]: "shape (scalar v) = []"
  by (simp add: scalar_def)

lemma shape_full [simp]: "shape (full s v) = s"
  by (simp add: full_def)

lemma shape_sum_to [simp]: "shape (sum_to a s) = s"
  by (simp add: sum_to_def)

lemma well_formed_number [simp]: "well_formed (number r)" "tshape (number r) = []"
  by (simp_all add: number_def)

lemma well_formed_zeros_like [simp]: "well_formed (zeros_like a)" "tshape (zeros_like a) = tshape a"
  by (simp_all add: zeros_like_def)

lemma well_formed_ones_like [simp]: "well_formed (ones_like a)" "tshape (ones_like a) = tshape a"
  by (simp_all add: ones_like_def)



lemma well_formed_stack_t:
  "stack_t a b = Inr c \<Longrightarrow> well_formed a \<Longrightarrow> well_formed b \<Longrightarrow>
   well_formed c \<and> tshape a = tshape b \<and> (\<exists>n rest. tshape a = n # rest \<and> tshape c = n # 2 # rest)"
proof -
  assume c: "stack_t a b = Inr c" and a: "well_formed a" and b: "well_formed b"
  from c obtain d where d: "stack_arr (data a) (data b) = Inr d"
    and r: "c = record_op (requires_grad a \<or> requires_grad b) (StackBackward d a b)"
    by (auto simp: stack_t_def ebind_def split: sum.splits)
  from well_formed_stack_arr [OF d well_formed_data [OF a] well_formed_data [OF b]]
  obtain n rest where w: "well_formed_arr d" and e: "tshape a = tshape b"
    and s: "tshape a = n # rest" "shape d = n # 2 # rest"
    by blast
  from e s have "tshape b = n # rest" by simp
  with w s a b have "well_formed (StackBackward d a b)" by simp
  then have "well_formed c" unfolding r by (rule well_formed_record_op)
  with e s r show ?thesis by simp
qed

lemma well_formed_select_t:
  "select_t k a = Inr c \<Longrightarrow> well_formed a \<Longrightarrow>
   well_formed c \<and> (\<exists>n m rest. tshape a = n # m # rest \<and> k < m \<and> tshape c = n # rest)"
proof -
  assume c: "select_t k a = Inr c" and a: "well_formed a"
  from c obtain d where d: "select_arr k (data a) = Inr d"
    and r: "c = record_op (requires_grad a) (SelectBackward d k a)"
    by (auto simp: select_t_def ebind_def split: sum.splits)
  from well_formed_select_arr [OF d well_formed_data [OF a]]
  obtain n m rest where w: "well_formed_arr d"
    and s: "tshape a = n # m # rest" "k < m" "shape d = n # rest"
    by blast
  from w s a have "well_formed (SelectBackward d k a)" by simp
  then have "well_formed c" unfolding r by (rule well_formed_record_op)
  with s r show ?thesis by simp
qed


lemma well_formed_view_t:
  "view_t s a = Inr c \<Longrightarrow> well_formed a \<Longrightarrow> well_formed c \<and> tshape c = s"
proof -
  assume c: "view_t s a = Inr c" and a: "well_formed a"
  from c obtain d where d: "view_arr s (data a) = Inr d"
    and r: "c = record_op (requires_grad a) (ViewBackward d a)"
    by (auto simp: view_t_def ebind_def split: sum.splits)
  from well_formed_view_arr [OF d well_formed_data [OF a]]
  have w: "well_formed_arr d" and e: "shape d = s" and n: "numel s = numel (tshape a)"
    by simp_all
  from w e n a have "well_formed (ViewBackward d a)" by simp
  then have "well_formed c" unfolding r by (rule well_formed_record_op)
  with e r show ?thesis by simp
qed

text \<open>
  A gradient has the shape of the tensor it is taken against. In a well-formed graph the
  gradient that a node passes to an operand has the shape of the operand, so what arrives
  at \<open>x\<close> has the shape of \<open>x\<close>, and the tensors the pass builds are well formed again:
  the next pass can start from them.
\<close>

lemma bshape_Nil_left [simp]: "bshape [] s = Some s"
  by (simp add: bshape_def)

lemma bshape_Nil_right [simp]: "bshape s [] = Some s"
proof -
  have "bshape_rev xs [] = Some xs" for xs
    by (cases xs) simp_all
  then show ?thesis by (simp add: bshape_def)
qed







section \<open>The residual evaluator\<close>




text \<open>
  The four models of the concrete evaluations are built from tensor operations: on a
  well-formed input each returns a well-formed prediction.
\<close>

lemma well_formed_unsqueeze1:
  "unsqueeze1 a = Inr c \<Longrightarrow> well_formed a \<Longrightarrow> well_formed c"
  by (auto simp: unsqueeze1_def split: list.splits dest: well_formed_view_t)

lemma models_well_formed:
  assumes inp: "well_formed inp"
  shows "model_x2t inp = Inr u \<Longrightarrow> well_formed u"
    and "model_xt inp = Inr u \<Longrightarrow> well_formed u"
    and "model_sin inp = Inr u \<Longrightarrow> well_formed u"
    and "model_t inp = Inr u \<Longrightarrow> well_formed u"
proof -
  have sel: "well_formed c" if "select_t k inp = Inr c" for k c
    using well_formed_select_t [OF that inp] by simp
  show "well_formed u" if "model_x2t inp = Inr u"
  proof -
    from that obtain x t p where x: "select_t 0 inp = Inr x" and t: "select_t 1 inp = Inr t"
      and p: "mul_t (pow_t x 2) t = Inr p" and u: "unsqueeze1 p = Inr u"
      by (auto simp: model_x2t_def ebind_def split: sum.splits)
    from well_formed_mul_t [OF p] well_formed_pow_t [OF sel [OF x], of 2] sel [OF t]
    have "well_formed p" by simp
    with u show ?thesis by (rule well_formed_unsqueeze1)
  qed
  show "well_formed u" if "model_xt inp = Inr u"
  proof -
    from that obtain x t p where x: "select_t 0 inp = Inr x" and t: "select_t 1 inp = Inr t"
      and p: "mul_t x t = Inr p" and u: "unsqueeze1 p = Inr u"
      by (auto simp: model_xt_def ebind_def split: sum.splits)
    from well_formed_mul_t [OF p sel [OF x] sel [OF t]] have "well_formed p" by simp
    with u show ?thesis by (rule well_formed_unsqueeze1)
  qed
  show "well_formed u" if "model_sin inp = Inr u"
  proof -
    from that obtain x y where x: "select_t 0 inp = Inr x"
      and y: "mul_t (number (2 * pi)) x = Inr y" and u: "unsqueeze1 (sin_t y) = Inr u"
      by (auto simp: model_sin_def ebind_def split: sum.splits)
    from well_formed_mul_t [OF y] sel [OF x] have "well_formed y" by simp
    then have "well_formed (sin_t y)" by (simp add: well_formed_sin_t)
    with u show ?thesis by (rule well_formed_unsqueeze1)
  qed
  show "well_formed u" if "model_t inp = Inr u"
  proof -
    from that obtain t where t: "select_t 1 inp = Inr t" and u: "unsqueeze1 t = Inr u"
      by (auto simp: model_t_def ebind_def split: sum.splits)
    from u sel [OF t] show ?thesis by (rule well_formed_unsqueeze1)
  qed
qed






section \<open>Initialization\<close>

text \<open>
  \<^verbatim>\<open>xavier_normal_\<close> on a weight of shape \<open>[n_out, n_in]\<close> with a feature at least returns,
  and what it fills in are the scaled draws.
\<close>

lemma draw_all_append:
  "draw_all xn (ws1 @ ws2) g =
     (case draw_all xn ws1 g of
        (ws1', g1) \<Rightarrow> (case draw_all xn ws2 g1 of (ws2', g2) \<Rightarrow> (ws1' @ ws2', g2)))"
  by (induction ws1 arbitrary: g) (simp_all split: prod.splits)

lemma normal_fill_draws:
  "normal_fill randn 0 std vs g =
     (case draws randn (length vs) g of (zs, g1) \<Rightarrow> (map (\<lambda>z. Fin (std * z)) zs, g1))"
  by (induction vs arbitrary: g) (simp_all split: prod.splits)

lemma xavier_normal_built:
  "shape w = [n_out, n_in] \<Longrightarrow> 0 < n_in + n_out \<Longrightarrow>
   xavier_normal randn w g = Inr (scaled_draws randn w g)"
  by (simp add: xavier_normal_def calculate_fan_in_and_fan_out_def normal_fill_draws add.commute
      scaled_draws_def split: prod.splits)

lemma length_draws: "draws randn n g = (zs, g') \<Longrightarrow> length zs = n"
  by (induction n arbitrary: g zs) (auto split: prod.splits)

lemma scaled_draws_shape:
  "scaled_draws randn w g = (w', g') \<Longrightarrow> shape w' = shape w \<and> length (vals w') = length (vals w)"
  by (auto simp: scaled_draws_def length_draws split: prod.splits)

lemma draw_all_shapes:
  "draw_all (scaled_draws randn) ws g = (ws', g') \<Longrightarrow>
   map shape ws' = map shape ws \<and> map (\<lambda>w. length (vals w)) ws' = map (\<lambda>w. length (vals w)) ws"
proof (induction ws arbitrary: g ws' g')
  case Nil
  then show ?case by simp
next
  case (Cons w ws)
  obtain w' g1 where w: "scaled_draws randn w g = (w', g1)" by (cases "scaled_draws randn w g")
  obtain ws1 g2 where ws: "draw_all (scaled_draws randn) ws g1 = (ws1, g2)"
    by (cases "draw_all (scaled_draws randn) ws g1")
  from Cons.prems w ws have e: "ws' = w' # ws1" by simp
  from scaled_draws_shape [OF w] Cons.IH [OF ws] e show ?case by simp
qed

text \<open>
  \<^verbatim>\<open>apply\<close> with \<^verbatim>\<open>init_weights\<close> returns on a module whose linear layers are built, and
  leaves it initialized: by induction on the module, its children first.
\<close>

lemma apply_children_initialized:
  assumes ih: "\<And>c g. c \<in> set cs \<Longrightarrow> linear_layers_built c \<Longrightarrow>
      \<exists>c' g'. apply_fn (init_weights randn) c g = Inr (c', g') \<and> initialized randn c g c' g'"
    and ab: "list_all linear_layers_built cs"
  shows "\<exists>cs' g'. apply_children (init_weights randn) cs g = Inr (cs', g') \<and>
      map skeleton cs' = map skeleton cs \<and>
      (concat (map weights cs'), g') = draw_all (scaled_draws randn) (concat (map weights cs)) g \<and>
      map shape (concat (map biases cs')) = map shape (concat (map biases cs)) \<and>
      map vals (concat (map biases cs')) =
        map (\<lambda>b. replicate (length (vals b)) (Fin (1 / 100))) (concat (map biases cs)) \<and>
      list_all linear_layers_built cs'"
  using ih ab
proof (induction cs arbitrary: g)
  case Nil
  show ?case by simp
next
  case (Cons c cs)
  from Cons.prems obtain c' g1 where c: "apply_fn (init_weights randn) c g = Inr (c', g1)"
    and ic: "initialized randn c g c' g1"
    by (auto simp: list_all_iff) blast
  from Cons.prems have "\<exists>cs' g'. apply_children (init_weights randn) cs g1 = Inr (cs', g') \<and>
      map skeleton cs' = map skeleton cs \<and>
      (concat (map weights cs'), g') = draw_all (scaled_draws randn) (concat (map weights cs)) g1 \<and>
      map shape (concat (map biases cs')) = map shape (concat (map biases cs)) \<and>
      map vals (concat (map biases cs')) =
        map (\<lambda>b. replicate (length (vals b)) (Fin (1 / 100))) (concat (map biases cs)) \<and>
      list_all linear_layers_built cs'"
    by (intro Cons.IH) auto
  then obtain cs' g2 where cs: "apply_children (init_weights randn) cs g1 = Inr (cs', g2)"
    and sk: "map skeleton cs' = map skeleton cs"
    and w: "(concat (map weights cs'), g2) = draw_all (scaled_draws randn) (concat (map weights cs)) g1"
    and bs: "map shape (concat (map biases cs')) = map shape (concat (map biases cs))"
    and bv: "map vals (concat (map biases cs')) =
        map (\<lambda>b. replicate (length (vals b)) (Fin (1 / 100))) (concat (map biases cs))"
    and ab: "list_all linear_layers_built cs'"
    by blast
  have "apply_children (init_weights randn) (c # cs) g = Inr (c' # cs', g2)"
    by (simp add: c cs)
  moreover have "map skeleton (c' # cs') = map skeleton (c # cs)"
    using ic sk by (simp add: initialized_def)
  moreover have "(concat (map weights (c' # cs')), g2)
      = draw_all (scaled_draws randn) (concat (map weights (c # cs))) g"
  proof -
    from ic have "draw_all (scaled_draws randn) (weights c) g = (weights c', g1)"
      by (simp add: initialized_def)
    with w [symmetric] show ?thesis by (simp add: draw_all_append)
  qed
  moreover have "map shape (concat (map biases (c' # cs'))) = map shape (concat (map biases (c # cs)))"
    using ic bs by (simp add: initialized_def)
  moreover have "map vals (concat (map biases (c' # cs'))) =
      map (\<lambda>b. replicate (length (vals b)) (Fin (1 / 100))) (concat (map biases (c # cs)))"
    using ic bv by (simp add: initialized_def)
  moreover have "list_all linear_layers_built (c' # cs')"
    using ic ab by (simp add: initialized_def)
  ultimately show ?case by blast
qed

lemma apply_fn_initialized:
  "linear_layers_built m \<Longrightarrow>
   \<exists>m' g'. apply_fn (init_weights randn) m g = Inr (m', g') \<and> initialized randn m g m' g'"
proof (induction m arbitrary: g)
  case (Module k cs)
  have "\<exists>cs' g'. apply_children (init_weights randn) cs g = Inr (cs', g') \<and>
      map skeleton cs' = map skeleton cs \<and>
      (concat (map weights cs'), g') = draw_all (scaled_draws randn) (concat (map weights cs)) g \<and>
      map shape (concat (map biases cs')) = map shape (concat (map biases cs)) \<and>
      map vals (concat (map biases cs')) =
        map (\<lambda>b. replicate (length (vals b)) (Fin (1 / 100))) (concat (map biases cs)) \<and>
      list_all linear_layers_built cs'"
    using Module by (intro apply_children_initialized) auto
  then obtain cs' g1 where cs: "apply_children (init_weights randn) cs g = Inr (cs', g1)"
    and sk: "map skeleton cs' = map skeleton cs"
    and w: "(concat (map weights cs'), g1) = draw_all (scaled_draws randn) (concat (map weights cs)) g"
    and bs: "map shape (concat (map biases cs')) = map shape (concat (map biases cs))"
    and bv: "map vals (concat (map biases cs')) =
        map (\<lambda>b. replicate (length (vals b)) (Fin (1 / 100))) (concat (map biases cs))"
    and ab: "list_all linear_layers_built cs'"
    by blast
  show ?case
  proof (cases k)
    case (Linear wt bo)
    with Module.prems obtain bias where bo: "bo = Some bias" by (cases bo) auto
    from Linear Module.prems obtain n_out n_in where sh: "shape wt = [n_out, n_in]"
      and pos: "0 < n_in + n_out"
      by (auto split: list.splits)
    obtain w' g2 where x: "scaled_draws randn wt g1 = (w', g2)" by (cases "scaled_draws randn wt g1")
    from scaled_draws_shape [OF x] sh have sh': "shape w' = [n_out, n_in]" by simp
    have "apply_fn (init_weights randn) (Module k cs) g =
        Inr (Module (Linear w' (Some (fill bias (Fin (1 / 100))))) cs', g2)"
      by (simp add: cs Linear bo xavier_normal_built [OF sh pos] x)
    moreover have "initialized randn (Module k cs) g
        (Module (Linear w' (Some (fill bias (Fin (1 / 100))))) cs') g2"
      using sk w [symmetric] bs bv ab x sh' pos
      by (simp add: initialized_def Linear bo draw_all_append fill_def map_replicate_const)
    ultimately show ?thesis by blast
  next
    case Tanh
    with cs sk w bs bv ab show ?thesis by (simp add: initialized_def)
  next
    case ModuleList
    with cs sk w bs bv ab show ?thesis by (simp add: initialized_def)
  next
    case WaveNet
    with cs sk w bs bv ab show ?thesis by (simp add: initialized_def)
  qed
qed


lemma scaled_draws_unfold:
  "scaled_draws randn =
     (\<lambda>w g. case draws randn (length (vals w)) g of
               (zs, g1) \<Rightarrow>
                 (Arr (shape w) (map (\<lambda>z. Fin (sqrt (2 / real (shape w ! 0 + shape w ! 1)) * z)) zs),
                  g1))"
  by (rule ext, rule ext) (simp add: scaled_draws_def)

text \<open>
  Every linear layer that is built has a bias. The network of the notebook: seven linear
  layers, all built, and their parameters before the initialization.
\<close>

lemma biases_built: "linear_layers_built m \<Longrightarrow> length (biases m) = length (weights m)"
proof (induction m)
  case (Module k cs)
  have "length (concat (map biases cs)) = length (concat (map weights cs))"
    using Module by (induction cs) (simp_all add: list_all_iff)
  with Module.prems show ?case
    by (cases k) (auto split: option.splits)
qed

lemma linear_layers_built_Wave: "linear_layers_built (Wave p_in p_out p_hidden)"
  by (simp add: Wave_def linear_module_def list_all_iff)

lemma range_5: "[0..<5] = [0, 1, 2, 3, 4]"
  by code_simp

lemma weights_Wave:
  "weights (Wave p_in p_out p_hidden) =
     [Arr [100, 2] (map (fst p_in) [0..<200]), Arr [1, 100] (map (fst p_out) [0..<100]),
      Arr [100, 100] (map (fst (p_hidden 0)) [0..<10000]),
      Arr [100, 100] (map (fst (p_hidden 1)) [0..<10000]),
      Arr [100, 100] (map (fst (p_hidden 2)) [0..<10000]),
      Arr [100, 100] (map (fst (p_hidden 3)) [0..<10000]),
      Arr [100, 100] (map (fst (p_hidden 4)) [0..<10000])]"
  by (simp add: Wave_def linear_module_def range_5)

lemma biases_Wave:
  "biases (Wave p_in p_out p_hidden) =
     [Arr [100] (map (snd p_in) [0..<100]), Arr [1] (map (snd p_out) [0..<1]),
      Arr [100] (map (snd (p_hidden 0)) [0..<100]),
      Arr [100] (map (snd (p_hidden 1)) [0..<100]),
      Arr [100] (map (snd (p_hidden 2)) [0..<100]),
      Arr [100] (map (snd (p_hidden 3)) [0..<100]),
      Arr [100] (map (snd (p_hidden 4)) [0..<100])]"
  by (simp add: Wave_def linear_module_def range_5)

lemma skeleton_Wave:
  "skeleton (Wave p_in p_out p_hidden) =
     Module WaveNet
       [Module (Linear (Arr [] []) None) [], Module (Linear (Arr [] []) None) [],
        Module ModuleList
          [Module (Linear (Arr [] []) None) [], Module (Linear (Arr [] []) None) [],
           Module (Linear (Arr [] []) None) [], Module (Linear (Arr [] []) None) [],
           Module (Linear (Arr [] []) None) []],
        Module Tanh []]"
  by (simp add: Wave_def linear_module_def range_5)

lemma draws_ones: "draws (\<lambda>g. (1, Suc g)) n g = (replicate n 1, g + n)"
  by (induction n arbitrary: g) simp_all

text \<open>
  C9. On a module whose linear layers all have a bias and a weight of shape
  \<open>[n_out, n_in]\<close>, as those of \<^verbatim>\<open>Wave\<close> have, \<^verbatim>\<open>model.apply(init_weights)\<close> returns, and it
  has changed the parameters of the linear layers only. Every weight has kept its shape
  and its number of entries, and each entry is a draw of the generator multiplied by
  \<open>sqrt (2 / (n_out + n_in))\<close>, the standard deviation of the normal Xavier rule; the
  layers draw one after the other in the order of the visit. Every linear layer still has
  its bias, and every bias has kept its shape and its number of entries and holds 0.01 in
  each of them.
\<close>

theorem init_weights_biases:
  "linear_layers_built m \<Longrightarrow>
   \<exists>m' g'. apply_fn (init_weights randn) m g = Inr (m', g') \<and>
     skeleton m' = skeleton m \<and>
     (weights m', g') =
       draw_all (\<lambda>w g. case draws randn (length (vals w)) g of
                           (zs, g1) \<Rightarrow>
                             (Arr (shape w)
                                (map (\<lambda>z. Fin (sqrt (2 / real (shape w ! 0 + shape w ! 1)) * z)) zs),
                              g1))
         (weights m) g \<and>
     map shape (weights m') = map shape (weights m) \<and>
     map (\<lambda>w. length (vals w)) (weights m') = map (\<lambda>w. length (vals w)) (weights m) \<and>
     length (biases m') = length (weights m') \<and>
     map shape (biases m') = map shape (biases m) \<and>
     map vals (biases m') = map (\<lambda>b. replicate (length (vals b)) (Fin (1 / 100))) (biases m) \<and>
     list_all (\<lambda>b. list_all (\<lambda>v. v = Fin (1 / 100)) (vals b)) (biases m')"
proof -
  assume "linear_layers_built m"
  from apply_fn_initialized [OF this, of randn g]
  obtain m' g' where a: "apply_fn (init_weights randn) m g = Inr (m', g')"
    and i: "initialized randn m g m' g'"
    by blast
  from i have sk: "skeleton m' = skeleton m"
    and w: "(weights m', g') = draw_all (scaled_draws randn) (weights m) g"
    and bs: "map shape (biases m') = map shape (biases m)"
    and bv: "map vals (biases m') = map (\<lambda>b. replicate (length (vals b)) (Fin (1 / 100))) (biases m)"
    and lb: "linear_layers_built m'"
    by (simp_all add: initialized_def)
  from draw_all_shapes [OF w [symmetric]]
  have ws: "map shape (weights m') = map shape (weights m)"
    and wl: "map (\<lambda>w. length (vals w)) (weights m') = map (\<lambda>w. length (vals w)) (weights m)"
    by simp_all
  have "set (map vals (biases m')) \<subseteq> {vs. list_all (\<lambda>v. v = Fin (1 / 100)) vs}"
    unfolding bv by (auto simp: list_all_iff)
  then have all: "list_all (\<lambda>b. list_all (\<lambda>v. v = Fin (1 / 100)) (vals b)) (biases m')"
    by (auto simp: list_all_iff)
  from a sk w [unfolded scaled_draws_unfold] ws wl biases_built [OF lb] bs bv all
  show ?thesis by blast
qed

text \<open>
  On \<^verbatim>\<open>Wave\<close> with a generator whose every draw is 1 and whose state counts the draws:
  the module is a \<^verbatim>\<open>Wave\<close> as before, the seven weights hold their standard deviations in
  200, 100 and five times 10000 entries, 50300 draws have been made, and the seven
  biases, of 100, 1 and five times 100 entries, all hold 0.01.
\<close>

theorem init_weights_biases_witness:
  "linear_layers_built (Wave (\<lambda>i. Fin 0, \<lambda>i. Fin 0) (\<lambda>i. Fin 0, \<lambda>i. Fin 0) (\<lambda>k. (\<lambda>i. Fin 0, \<lambda>i. Fin 0))) \<and>
   (\<exists>m'.
      apply_fn (init_weights (\<lambda>g. (1, Suc g)))
        (Wave (\<lambda>i. Fin 0, \<lambda>i. Fin 0) (\<lambda>i. Fin 0, \<lambda>i. Fin 0) (\<lambda>k. (\<lambda>i. Fin 0, \<lambda>i. Fin 0))) 0
        = Inr (m', 50300) \<and>
      skeleton m' =
        Module WaveNet
          [Module (Linear (Arr [] []) None) [], Module (Linear (Arr [] []) None) [],
           Module ModuleList
             [Module (Linear (Arr [] []) None) [], Module (Linear (Arr [] []) None) [],
              Module (Linear (Arr [] []) None) [], Module (Linear (Arr [] []) None) [],
              Module (Linear (Arr [] []) None) []],
           Module Tanh []] \<and>
      weights m' =
        [Arr [100, 2] (replicate 200 (Fin (sqrt (2 / 102)))),
         Arr [1, 100] (replicate 100 (Fin (sqrt (2 / 101)))),
         Arr [100, 100] (replicate 10000 (Fin (sqrt (2 / 200)))),
         Arr [100, 100] (replicate 10000 (Fin (sqrt (2 / 200)))),
         Arr [100, 100] (replicate 10000 (Fin (sqrt (2 / 200)))),
         Arr [100, 100] (replicate 10000 (Fin (sqrt (2 / 200)))),
         Arr [100, 100] (replicate 10000 (Fin (sqrt (2 / 200))))] \<and>
      biases m' =
        [Arr [100] (replicate 100 (Fin (1 / 100))), Arr [1] (replicate 1 (Fin (1 / 100))),
         Arr [100] (replicate 100 (Fin (1 / 100))), Arr [100] (replicate 100 (Fin (1 / 100))),
         Arr [100] (replicate 100 (Fin (1 / 100))), Arr [100] (replicate 100 (Fin (1 / 100))),
         Arr [100] (replicate 100 (Fin (1 / 100)))])"
proof -
  let ?w = "Wave (\<lambda>i. Fin 0, \<lambda>i. Fin 0) (\<lambda>i. Fin 0, \<lambda>i. Fin 0) (\<lambda>k. (\<lambda>i. Fin 0, \<lambda>i. Fin 0))"
  have ab: "linear_layers_built ?w" by (rule linear_layers_built_Wave)
  from init_weights_biases [OF ab, of "\<lambda>g. (1, Suc g)" 0]
  obtain m' g' where a: "apply_fn (init_weights (\<lambda>g. (1, Suc g))) ?w 0 = Inr (m', g')"
    and sk: "skeleton m' = skeleton ?w"
    and w: "(weights m', g') =
       draw_all (\<lambda>w g. case draws (\<lambda>g. (1, Suc g)) (length (vals w)) g of
                           (zs, g1) \<Rightarrow>
                             (Arr (shape w)
                                (map (\<lambda>z. Fin (sqrt (2 / real (shape w ! 0 + shape w ! 1)) * z)) zs),
                              g1))
         (weights ?w) 0"
    and bs: "map shape (biases m') = map shape (biases ?w)"
    and bv: "map vals (biases m') = map (\<lambda>b. replicate (length (vals b)) (Fin (1 / 100))) (biases ?w)"
    by blast
  have wv: "weights m' =
        [Arr [100, 2] (replicate 200 (Fin (sqrt (2 / 102)))),
         Arr [1, 100] (replicate 100 (Fin (sqrt (2 / 101)))),
         Arr [100, 100] (replicate 10000 (Fin (sqrt (2 / 200)))),
         Arr [100, 100] (replicate 10000 (Fin (sqrt (2 / 200)))),
         Arr [100, 100] (replicate 10000 (Fin (sqrt (2 / 200)))),
         Arr [100, 100] (replicate 10000 (Fin (sqrt (2 / 200)))),
         Arr [100, 100] (replicate 10000 (Fin (sqrt (2 / 200))))]"
    and gv: "g' = 50300"
    using w by (simp_all add: weights_Wave draws_ones)
  from a gv have a': "apply_fn (init_weights (\<lambda>g. (1, Suc g))) ?w 0 = Inr (m', 50300)"
    by simp
  note sk' = sk [unfolded skeleton_Wave]
  have "bs = map2 Arr (map shape bs) (map vals bs)" for bs :: "arr list"
    by (induction bs) simp_all
  then have "biases m' = map2 Arr (map shape (biases m')) (map vals (biases m'))" .
  then have bb: "biases m' =
        [Arr [100] (replicate 100 (Fin (1 / 100))), Arr [1] (replicate 1 (Fin (1 / 100))),
         Arr [100] (replicate 100 (Fin (1 / 100))), Arr [100] (replicate 100 (Fin (1 / 100))),
         Arr [100] (replicate 100 (Fin (1 / 100))), Arr [100] (replicate 100 (Fin (1 / 100))),
         Arr [100] (replicate 100 (Fin (1 / 100)))]"
    unfolding bs bv by (simp add: biases_Wave)
  show ?thesis
    apply (rule conjI)
     apply (rule ab)
    apply (rule exI [of _ m'])
    apply (intro conjI)
       apply (fact a' sk' wv bb)+
    done
qed

end
